theory Spec2Isabelle
  imports Main
begin

section \<open>Python strings\<close>

text \<open>
  A Python \<open>str\<close> is modelled as a \<^typ>\<open>string\<close> whose characters are the code points
  below 256. The functions of this section follow CPython's \<open>str.strip\<close>, \<open>str.lower\<close>,
  \<open>str.join\<close>, \<open>str.split\<close>, \<open>str(int)\<close>, \<open>int(str)\<close> and \<open>repr(str)\<close> on that range.
\<close>

definition sq :: string where
  "sq = [CHR 0x27]"

definition nl :: string where
  "nl = [CHR 0x0A]"

definition code :: "char \<Rightarrow> nat" where
  "code c = of_char c"

definition is_space :: "char \<Rightarrow> bool" where
  "is_space c = (code c \<in> set [9, 10, 11, 12, 13, 28, 29, 30, 31, 32, 133, 160])"

definition lstrip :: "string \<Rightarrow> string" where
  "lstrip s = dropWhile is_space s"

definition rstrip :: "string \<Rightarrow> string" where
  "rstrip s = rev (dropWhile is_space (rev s))"

definition strip :: "string \<Rightarrow> string" where
  "strip s = rstrip (lstrip s)"

definition is_upper :: "char \<Rightarrow> bool" where
  "is_upper c = ((65 \<le> code c \<and> code c \<le> 90) \<or>
                 (192 \<le> code c \<and> code c \<le> 222 \<and> code c \<noteq> 215))"

definition lower_char :: "char \<Rightarrow> char" where
  "lower_char c = (if is_upper c then char_of (code c + 32) else c)"

definition lower :: "string \<Rightarrow> string" where
  "lower s = map lower_char s"

fun join :: "string \<Rightarrow> string list \<Rightarrow> string" where
  "join sep [] = []"
| "join sep [x] = x"
| "join sep (x # y # ys) = x @ sep @ join sep (y # ys)"

definition digit_char :: "nat \<Rightarrow> char" where
  "digit_char d = char_of (48 + d)"

fun str_nat :: "nat \<Rightarrow> string" where
  "str_nat n = (if n < 10 then [digit_char n] else str_nat (n div 10) @ [digit_char (n mod 10)])"

declare str_nat.simps [simp del]

definition str_int :: "int \<Rightarrow> string" where
  "str_int i = (if i < 0 then CHR ''-'' # str_nat (nat (- i)) else str_nat (nat i))"

text \<open>\<open>s.split(',')\<close>: the pieces between the separators, at least one piece.\<close>

fun str_split :: "char \<Rightarrow> string \<Rightarrow> string list" where
  "str_split sep [] = [[]]"
| "str_split sep (c # cs) =
     (if c = sep then [] # str_split sep cs
      else (case str_split sep cs of
              [] \<Rightarrow> [[c]]
            | piece # pieces \<Rightarrow> (c # piece) # pieces))"

text \<open>
  \<open>int(s)\<close> on a text: surrounding whitespace is dropped, one sign may lead, and the
  digits may be grouped by single underscores. \<open>None\<close> is the \<open>ValueError\<close>. The
  whitespace \<open>int\<close> drops is not that of \<open>strip\<close>: the separators \<open>0x1C\<close> to \<open>0x1F\<close>
  are not part of it.
\<close>

definition is_int_space :: "char \<Rightarrow> bool" where
  "is_int_space c = (code c \<in> set [9, 10, 11, 12, 13, 32, 133, 160])"

definition int_strip :: "string \<Rightarrow> string" where
  "int_strip s = rev (dropWhile is_int_space (rev (dropWhile is_int_space s)))"

definition is_digit :: "char \<Rightarrow> bool" where
  "is_digit c = (48 \<le> code c \<and> code c \<le> 57)"

definition digit_val :: "char \<Rightarrow> nat" where
  "digit_val c = code c - 48"

fun more_digits :: "nat \<Rightarrow> string \<Rightarrow> nat option" where
  "more_digits acc [] = Some acc"
| "more_digits acc [c] = (if is_digit c then Some (10 * acc + digit_val c) else None)"
| "more_digits acc (c # d # ds) =
     (if is_digit c then more_digits (10 * acc + digit_val c) (d # ds)
      else if c = CHR ''_'' \<and> is_digit d then more_digits (10 * acc + digit_val d) ds
      else None)"

fun parse_digits :: "string \<Rightarrow> nat option" where
  "parse_digits [] = None"
| "parse_digits (c # cs) = (if is_digit c then more_digits (digit_val c) cs else None)"

definition py_int :: "string \<Rightarrow> int option" where
  "py_int s =
     (case int_strip s of
        [] \<Rightarrow> None
      | c # cs \<Rightarrow>
          if c = CHR ''-'' then map_option (\<lambda>n. - int n) (parse_digits cs)
          else if c = CHR ''+'' then map_option int (parse_digits cs)
          else map_option int (parse_digits (c # cs)))"

text \<open>
  \<open>repr(s)\<close> of a text: double quotes when the text holds a single quote and no double
  quote, single quotes otherwise; the quote in use and the backslash are escaped, and
  the characters that are not printable are written \<open>\t\<close>, \<open>\n\<close>, \<open>\r\<close> or \<open>\xNN\<close>.
\<close>

definition hex_digit :: "nat \<Rightarrow> char" where
  "hex_digit d = ''0123456789abcdef'' ! d"

definition repr_char :: "char \<Rightarrow> char \<Rightarrow> string" where
  "repr_char quote c =
     (if c = quote \<or> c = CHR 0x5C then [CHR 0x5C, c]
      else if c = CHR 0x09 then [CHR 0x5C, CHR ''t'']
      else if c = CHR 0x0A then [CHR 0x5C, CHR ''n'']
      else if c = CHR 0x0D then [CHR 0x5C, CHR ''r'']
      else if code c < 32 \<or> code c = 127 \<or> (128 \<le> code c \<and> code c \<le> 160) \<or> code c = 173
        then [CHR 0x5C, CHR ''x'', hex_digit (code c div 16), hex_digit (code c mod 16)]
      else [c])"

definition repr_str :: "string \<Rightarrow> string" where
  "repr_str s =
     (let quote = (if CHR 0x27 \<in> set s \<and> CHR 0x22 \<notin> set s then CHR 0x22 else CHR 0x27)
      in [quote] @ concat (map (repr_char quote) s) @ [quote])"

text \<open>
  A \<open>dict\<close> with text keys and values, in insertion order: an assignment to a key that is
  present keeps the key's place.
\<close>

fun dict_set :: "(string \<times> string) list \<Rightarrow> string \<Rightarrow> string \<Rightarrow> (string \<times> string) list" where
  "dict_set [] k v = [(k, v)]"
| "dict_set ((k', v') # d) k v = (if k' = k then (k, v) # d else (k', v') # dict_set d k v)"

definition repr_dict :: "(string \<times> string) list \<Rightarrow> string" where
  "repr_dict d = ''{'' @ join '', '' (map (\<lambda>kv. repr_str (fst kv) @ '': '' @ repr_str (snd kv)) d) @ ''}''"

section \<open>Cell values and the frame\<close>

text \<open>
  A cell of a pandas frame is missing (\<open>NaN\<close>, \<open>None\<close>, \<open>NaT\<close>: exactly the values on which
  \<open>pd.notna\<close> is false), an integer or a text. \<open>str_cell\<close> is Python's \<open>str(v)\<close>; on a
  missing cell it is the text \<open>nan\<close>. Floating-point cells are outside the model.
\<close>

datatype cell = Missing | IntCell int | StrCell string

fun notna :: "cell \<Rightarrow> bool" where
  "notna Missing = False"
| "notna (IntCell i) = True"
| "notna (StrCell s) = True"

fun str_cell :: "cell \<Rightarrow> string" where
  "str_cell Missing = ''nan''"
| "str_cell (IntCell i) = str_int i"
| "str_cell (StrCell s) = s"

text \<open>
  The test shared by lines 50 and 70 of \<open>main.py\<close>:
  \<open>pd.notna(v) and str(v).strip().lower() not in ['null', '', '-']\<close>.
\<close>

definition has_value :: "cell \<Rightarrow> bool" where
  "has_value v = (notna v \<and> lower (strip (str_cell v)) \<notin> set [''null'', '''', ''-''])"

text \<open>The element expression of the list comprehension on line 50.\<close>

definition format_value :: "cell \<Rightarrow> string" where
  "format_value v = (if has_value v then sq @ str_cell v @ sq else ''NULL'')"

text \<open>
  A frame is its column labels and its rows, each row the cells in column order. The
  readers of pandas return rectangular frames with unique labels (\<open>read_csv\<close> renames
  a repeated header): \<open>wf_frame\<close>.
\<close>

record frame =
  columns :: "string list"
  rows :: "cell list list"

definition wf_frame :: "frame \<Rightarrow> bool" where
  "wf_frame df = (distinct (columns df) \<and>
     list_all (\<lambda>row. length row = length (columns df)) (rows df))"

text \<open>\<open>df.iterrows()\<close>: every row as a series, its cells indexed by the column labels.\<close>

definition iterrows :: "frame \<Rightarrow> (string \<times> cell) list list" where
  "iterrows df = map (zip (columns df)) (rows df)"

datatype os_error =
    FileExistsError string
  | FileNotFoundError string
  | NotADirectoryError string
  | IsADirectoryError string

datatype error =
    ValueError string
  | KeyError string
  | EOFError
  | OSError os_error

section \<open>generate_insert_queries\<close>

definition row_tuple :: "cell list \<Rightarrow> string" where
  "row_tuple row = ''('' @ join '', '' (map format_value row) @ '')''"

text \<open>The \<open>for\<close> loop of lines 49 to 51, appending one tuple to \<open>values_list\<close> per row.\<close>

fun insert_loop :: "cell list list \<Rightarrow> string list \<Rightarrow> string list" where
  "insert_loop [] values_list = values_list"
| "insert_loop (row # rest) values_list = insert_loop rest (values_list @ [row_tuple row])"

definition generate_insert_queries :: "frame \<Rightarrow> string \<Rightarrow> string" where
  "generate_insert_queries df table_name =
     (let base_insert = ''INSERT INTO '' @ table_name @ '' ('' @ join '', '' (columns df) @ '') VALUES'';
          values_list = insert_loop (rows df) []
      in base_insert @ '' '' @ join '', '' values_list @ '';'')"

section \<open>generate_update_queries\<close>

text \<open>
  \<open>row[col]\<close> on a series: the cell under the label; \<open>KeyError\<close> when the label is absent.
  Under a repeated label it is a series, whose truth value \<open>and\<close> refuses.
\<close>

definition series_get :: "(string \<times> cell) list \<Rightarrow> string \<Rightarrow> error + cell" where
  "series_get row col =
     (case filter (\<lambda>kv. fst kv = col) row of
        [] \<Rightarrow> Inl (KeyError col)
      | [kv] \<Rightarrow> Inr (snd kv)
      | _ \<Rightarrow> Inl (ValueError ''The truth value of a Series is ambiguous.''))"

text \<open>The generator expression of line 70, over the columns in order.\<close>

fun set_items :: "(string \<times> cell) list \<Rightarrow> string list \<Rightarrow> error + string list" where
  "set_items row [] = Inr []"
| "set_items row (col # cols) =
     (case series_get row col of
        Inl e \<Rightarrow> Inl e
      | Inr v \<Rightarrow>
          (case set_items row cols of
             Inl e \<Rightarrow> Inl e
           | Inr items \<Rightarrow>
               Inr (if has_value v then (col @ '' = '' @ sq @ str_cell v @ sq) # items
                    else items)))"

definition update_query :: "string \<Rightarrow> string \<Rightarrow> string list \<Rightarrow> (string \<times> cell) list \<Rightarrow> error + string" where
  "update_query table_name condition cols row =
     (case set_items row cols of
        Inl e \<Rightarrow> Inl e
      | Inr items \<Rightarrow>
          Inr (''UPDATE '' @ table_name @ '' SET '' @ join '', '' items @
               '' WHERE '' @ condition @ '';''))"

text \<open>The \<open>for\<close> loop of lines 69 to 72, appending one statement to \<open>queries\<close> per row.\<close>

fun update_loop ::
  "string \<Rightarrow> string \<Rightarrow> string list \<Rightarrow> (string \<times> cell) list list \<Rightarrow> string list \<Rightarrow> error + string list" where
  "update_loop table_name condition cols [] queries = Inr queries"
| "update_loop table_name condition cols (row # rest) queries =
     (case update_query table_name condition cols row of
        Inl e \<Rightarrow> Inl e
      | Inr query \<Rightarrow> update_loop table_name condition cols rest (queries @ [query]))"

definition generate_update_queries :: "frame \<Rightarrow> string \<Rightarrow> string \<Rightarrow> error + string" where
  "generate_update_queries df table_name condition =
     (case update_loop table_name condition (columns df) (iterrows df) [] of
        Inl e \<Rightarrow> Inl e
      | Inr queries \<Rightarrow> Inr (join nl queries))"

text \<open>
  The closed forms the properties of the UPDATE mode are stated with: the items of the
  SET clause of one row, from the cells that hold a value, and the statement of one row.
\<close>

definition set_clause_items :: "string list \<Rightarrow> cell list \<Rightarrow> string list" where
  "set_clause_items cols row =
     map (\<lambda>kv. fst kv @ '' = '' @ [CHR 0x27] @ str_cell (snd kv) @ [CHR 0x27])
       (filter (\<lambda>kv. has_value (snd kv)) (zip cols row))"

definition update_statement :: "string \<Rightarrow> string \<Rightarrow> string list \<Rightarrow> cell list \<Rightarrow> string" where
  "update_statement t c cols row =
     ''UPDATE '' @ t @ '' SET '' @ join '', '' (set_clause_items cols row) @ '' WHERE '' @ c @ '';''"

section \<open>Paths and the file system\<close>

text \<open>
  \<open>os.path\<close> on POSIX. \<open>rfind\<close> is \<open>str.rfind\<close>: the last index of the character, or
  \<open>-1\<close>. \<open>has_stem\<close> is the loop of \<open>splitext\<close> that skips the leading dots of the last
  component: true when a character other than a dot stands before the last dot.
\<close>

definition rfind :: "string \<Rightarrow> char \<Rightarrow> int" where
  "rfind p c =
     (if c \<in> set p then int (length p) - 1 - int (length (takeWhile (\<lambda>x. x \<noteq> c) (rev p)))
      else - 1)"

function has_stem :: "string \<Rightarrow> nat \<Rightarrow> nat \<Rightarrow> bool" where
  "has_stem p filenameIndex dotIndex =
     (if filenameIndex < dotIndex
      then (if p ! filenameIndex \<noteq> CHR ''.'' then True
            else has_stem p (Suc filenameIndex) dotIndex)
      else False)"
  by pat_completeness auto
termination
  by (relation "measure (\<lambda>(p, filenameIndex, dotIndex). dotIndex - filenameIndex)") auto

declare has_stem.simps [simp del]

definition splitext :: "string \<Rightarrow> string \<times> string" where
  "splitext p =
     (let sepIndex = rfind p CHR ''/'';
          dotIndex = rfind p CHR ''.''
      in if dotIndex > sepIndex \<and> has_stem p (nat (sepIndex + 1)) (nat dotIndex)
         then (take (nat dotIndex) p, drop (nat dotIndex) p)
         else (p, []))"

definition basename :: "string \<Rightarrow> string" where
  "basename p = drop (nat (rfind p CHR ''/'' + 1)) p"

definition dirname :: "string \<Rightarrow> string" where
  "dirname p =
     (let head = take (nat (rfind p CHR ''/'' + 1)) p
      in if head \<noteq> [] \<and> head \<noteq> replicate (length head) CHR ''/''
         then rev (dropWhile (\<lambda>c. c = CHR ''/'') (rev head))
         else head)"

definition path_join :: "string \<Rightarrow> string \<Rightarrow> string" where
  "path_join a b =
     (if b \<noteq> [] \<and> hd b = CHR ''/'' then b
      else if a = [] \<or> last a = CHR ''/'' then a @ b
      else a @ ''/'' @ b)"

text \<open>
  The file system: the directories that exist and the content of every regular file,
  both under the path texts the program uses. Permissions, links and the space left on
  the device are outside the model.
\<close>

record fs =
  dirs :: "string set"
  files :: "string \<rightharpoonup> string"

definition path_exists :: "fs \<Rightarrow> string \<Rightarrow> bool" where
  "path_exists f p = (p \<in> dirs f \<or> p \<in> dom (files f))"

definition makedirs :: "string \<Rightarrow> fs \<Rightarrow> os_error + fs" where
  "makedirs d f =
     (if path_exists f d then Inl (FileExistsError d)
      else Inr (f\<lparr>dirs := insert d (dirs f)\<rparr>))"

text \<open>\<open>open(path, 'w')\<close> followed by one \<open>write\<close> and the close of the \<open>with\<close> block.\<close>

definition open_write :: "string \<Rightarrow> string \<Rightarrow> fs \<Rightarrow> os_error + fs" where
  "open_write path content f =
     (let d = dirname path
      in if d \<in> dom (files f) then Inl (NotADirectoryError path)
         else if d \<noteq> [] \<and> d \<notin> dirs f then Inl (FileNotFoundError path)
         else if path \<in> dirs f then Inl (IsADirectoryError path)
         else Inr (f\<lparr>files := (files f)(path \<mapsto> content)\<rparr>))"

section \<open>The console session\<close>

text \<open>
  The world of a run: the lines still to come on the standard input, the texts written
  to the standard output so far, the file system, and the paths handed to a reader of
  pandas. A computation returns a value or the exception that ended it, and the world.
\<close>

record world =
  stdin :: "string list"
  stdout :: "string list"
  fsys :: fs
  files_read :: "string list"

type_synonym 'a io = "world \<Rightarrow> (error + 'a) \<times> world"

definition return_io :: "'a \<Rightarrow> 'a io" where
  "return_io x w = (Inr x, w)"

definition raise_io :: "error \<Rightarrow> 'a io" where
  "raise_io e w = (Inl e, w)"

definition bind_io :: "'a io \<Rightarrow> ('a \<Rightarrow> 'b io) \<Rightarrow> 'b io" where
  "bind_io m k w = (case m w of (Inl e, w') \<Rightarrow> (Inl e, w') | (Inr x, w') \<Rightarrow> k x w')"

definition py_print :: "string \<Rightarrow> unit io" where
  "py_print s w = (Inr (), w\<lparr>stdout := stdout w @ [s @ nl]\<rparr>)"

definition py_input :: "string \<Rightarrow> string io" where
  "py_input prompt w =
     (case stdin w of
        [] \<Rightarrow> (Inl EOFError, w\<lparr>stdout := stdout w @ [prompt]\<rparr>)
      | line # rest \<Rightarrow> (Inr line, w\<lparr>stdin := rest, stdout := stdout w @ [prompt]\<rparr>))"

section \<open>The functions of main.py on the world\<close>

definition show_warning :: "unit io" where
  "show_warning =
     bind_io (py_print ''WARNING: This script will assist you in performing SQL operations like SELECT, INSERT, UPDATE, DELETE, etc.'') (\<lambda>_.
     bind_io (py_print ''For INSERT and UPDATE, a CSV/Excel file will be used. it will convert CSV/Excel data into SQL statements'') (\<lambda>_.
     bind_io (py_print (''Any empty values, or '' @ sq @ ''-'' @ sq @ '' in the CSV/Excel sheet will be converted to NULL in the SQL queries.'')) (\<lambda>_.
     bind_io (py_print ''Make sure you have the correct details before proceeding.'') (\<lambda>_.
     py_print ''=========================================================''))))"

text \<open>
  The readers of pandas and \<open>os.path.realpath\<close> are not part of the program: they are
  the parameters of the run.
\<close>

record env =
  realpath :: "string \<Rightarrow> string"
  read_csv :: "string \<Rightarrow> fs \<Rightarrow> error + frame"
  read_excel :: "string \<Rightarrow> fs \<Rightarrow> error + frame"

definition call_reader :: "(string \<Rightarrow> fs \<Rightarrow> error + frame) \<Rightarrow> string \<Rightarrow> frame io" where
  "call_reader reader file_path w =
     (reader file_path (fsys w), w\<lparr>files_read := files_read w @ [file_path]\<rparr>)"

definition read_input_file :: "env \<Rightarrow> string \<Rightarrow> frame io" where
  "read_input_file e file_path =
     (let file_extension = lower (snd (splitext file_path))
      in if file_extension = ''.csv'' then call_reader (read_csv e) file_path
         else if file_extension \<in> set [''.xls'', ''.xlsx''] then call_reader (read_excel e) file_path
         else raise_io (ValueError ''Unsupported file format. Please provide a CSV or Excel file.''))"

definition lift_os :: "(fs \<Rightarrow> os_error + fs) \<Rightarrow> unit io" where
  "lift_os act w =
     (case act (fsys w) of
        Inl err \<Rightarrow> (Inl (OSError err), w)
      | Inr f \<Rightarrow> (Inr (), w\<lparr>fsys := f\<rparr>))"

definition write_queries_to_file :: "string \<Rightarrow> string \<Rightarrow> unit io" where
  "write_queries_to_file query output_file =
     (let directory = ''./storage''
      in bind_io (\<lambda>w. if \<not> path_exists (fsys w) directory then lift_os (makedirs directory) w
                       else return_io () w) (\<lambda>_.
         let output_file_path = path_join directory output_file
         in bind_io (lift_os (open_write output_file_path (query @ nl @ nl))) (\<lambda>_.
            py_print (''SQL queries have been written to '' @ output_file_path))))"

definition get_output_file_name :: "string \<Rightarrow> string" where
  "get_output_file_name input_file =
     (let base_name = fst (splitext (basename input_file))
      in base_name @ ''.sql'')"

text \<open>
  The \<open>enumerate\<close> loop of lines 118 and 119, and the \<open>while True\<close> loop of lines 121 to
  129 over the lines still to come. The end of the input is the \<open>EOFError\<close> of \<open>input\<close>,
  which the loop does not catch.
\<close>

fun option_lines :: "nat \<Rightarrow> string list \<Rightarrow> string list" where
  "option_lines i [] = []"
| "option_lines i (option # options) =
     (str_nat i @ ''. '' @ option @ nl) # option_lines (Suc i) options"

definition choice_prompt :: "string list \<Rightarrow> string" where
  "choice_prompt options = ''Enter your choice (1-'' @ str_nat (length options) @ ''): ''"

definition range_message :: "string list \<Rightarrow> string" where
  "range_message options =
     ''Please enter a number between 1 and '' @ str_nat (length options) @ ''.'' @ nl"

definition invalid_message :: string where
  "invalid_message = ''Invalid input, please enter a number.'' @ nl"

fun selection_loop ::
  "string list \<Rightarrow> string list \<Rightarrow> string list \<Rightarrow> (error + string) \<times> string list \<times> string list" where
  "selection_loop options [] out = (Inl EOFError, [], out @ [choice_prompt options])"
| "selection_loop options (line # rest) out =
     (case py_int line of
        None \<Rightarrow> selection_loop options rest (out @ [choice_prompt options, invalid_message])
      | Some choice \<Rightarrow>
          if 1 \<le> choice \<and> choice \<le> int (length options)
          then (Inr (options ! nat (choice - 1)), rest, out @ [choice_prompt options])
          else selection_loop options rest (out @ [choice_prompt options, range_message options]))"

definition get_user_selection :: "string list \<Rightarrow> string \<Rightarrow> string io" where
  "get_user_selection options prompt w =
     (case selection_loop options (stdin w) (stdout w @ [prompt @ nl] @ option_lines 1 options) of
        (r, rest, out) \<Rightarrow> (r, w\<lparr>stdin := rest, stdout := out\<rparr>))"

text \<open>
  The loops of lines 144 to 148, 217 to 221 and 229 to 233: ask until the trimmed line is
  not empty.
\<close>

fun name_loop ::
  "string \<Rightarrow> string \<Rightarrow> string list \<Rightarrow> string list \<Rightarrow> (error + string) \<times> string list \<times> string list" where
  "name_loop prompt complaint [] out = (Inl EOFError, [], out @ [prompt])"
| "name_loop prompt complaint (line # rest) out =
     (if strip line \<noteq> [] then (Inr (strip line), rest, out @ [prompt])
      else name_loop prompt complaint rest (out @ [prompt, complaint @ nl]))"

definition read_name :: "string \<Rightarrow> string \<Rightarrow> string io" where
  "read_name prompt complaint w =
     (case name_loop prompt complaint (stdin w) (stdout w) of
        (r, rest, out) \<Rightarrow> (r, w\<lparr>stdin := rest, stdout := out\<rparr>))"

definition read_view_name :: "string io" where
  "read_view_name =
     read_name ''Enter the view name: '' ''View name cannot be empty. Please enter a valid view name.''"

text \<open>The loop of lines 191 to 198, filling the dictionary \<open>columns\<close>.\<close>

definition column_spec :: "string \<Rightarrow> string \<Rightarrow> string \<Rightarrow> string" where
  "column_spec col_type col_key col_default =
     col_type @ '' '' @ col_key @ '' '' @
     (if col_default \<noteq> [] then ''DEFAULT '' @ col_default else [])"

definition name_prompt :: string where
  "name_prompt = ''Enter column name (or type '' @ sq @ ''done'' @ sq @ '' to finish): ''"

definition type_prompt :: "string \<Rightarrow> string" where
  "type_prompt col_name = ''Enter data type for '' @ col_name @ '': ''"

definition default_prompt :: "string \<Rightarrow> string" where
  "default_prompt col_name =
     ''Enter default value for '' @ col_name @ '' (or leave blank for none): ''"

definition key_prompt :: "string \<Rightarrow> string" where
  "key_prompt col_name =
     ''Is '' @ col_name @ '' a PRIMARY KEY, UNIQUE, or INDEX (leave blank if none): ''"

fun column_loop ::
  "(string \<times> string) list \<Rightarrow> string list \<Rightarrow> string list \<Rightarrow>
   (error + (string \<times> string) list) \<times> string list \<times> string list" where
  "column_loop coldict [] out = (Inl EOFError, [], out @ [name_prompt])"
| "column_loop coldict (col_name # ins) out =
     (if lower col_name = ''done'' then (Inr coldict, ins, out @ [name_prompt])
      else
        (case ins of
           [] \<Rightarrow> (Inl EOFError, [], out @ [name_prompt, type_prompt col_name])
         | [col_type] \<Rightarrow>
             (Inl EOFError, [], out @ [name_prompt, type_prompt col_name, default_prompt col_name])
         | [col_type, col_default] \<Rightarrow>
             (Inl EOFError, [],
              out @ [name_prompt, type_prompt col_name, default_prompt col_name, key_prompt col_name])
         | col_type # col_default # col_key # rest \<Rightarrow>
             column_loop (dict_set coldict col_name (column_spec col_type col_key col_default)) rest
               (out @ [name_prompt, type_prompt col_name, default_prompt col_name, key_prompt col_name])))"

definition read_columns :: "(string \<times> string) list io" where
  "read_columns w =
     (case column_loop [] (stdin w) (stdout w) of
        (r, rest, out) \<Rightarrow> (r, w\<lparr>stdin := rest, stdout := out\<rparr>))"

section \<open>The script\<close>

definition operations :: "string list" where
  "operations = [''select'', ''insert'', ''update'', ''delete'', ''create_table'', ''drop_table'',
                 ''alter_table'', ''create_view'', ''drop_view'']"

definition print_query :: "string \<Rightarrow> unit io" where
  "print_query sql_query = py_print (''Generated SQL Query:'' @ nl @ sql_query)"

text \<open>\<open>x or d\<close> on texts: \<open>d\<close> when \<open>x\<close> is empty.\<close>

definition or_default :: "string \<Rightarrow> string \<Rightarrow> string" where
  "or_default x d = (if x \<noteq> [] then x else d)"

definition select_query :: "string \<Rightarrow> string \<Rightarrow> string \<Rightarrow> string \<Rightarrow> string \<Rightarrow> string" where
  "select_query cols table_name condition limit offset =
     ''SELECT '' @ join '', '' (str_split CHR '','' cols) @ '' FROM '' @ table_name @
     '' WHERE '' @ condition @ '' LIMIT '' @ limit @ '' OFFSET '' @ offset @ '';''"

definition select_branch :: "string \<Rightarrow> unit io" where
  "select_branch table_name =
     bind_io (py_input ''Enter the columns to select (comma-separated, or * for all): '') (\<lambda>l1.
     bind_io (py_input ''Enter the limit (default is 10): '') (\<lambda>l2.
     bind_io (py_input ''Enter the offset (default is 0): '') (\<lambda>l3.
     bind_io (py_input ''Enter any conditions (or leave blank): '') (\<lambda>l4.
       let cols = strip l1;
           limit = or_default (strip l2) ''10'';
           offset = or_default (strip l3) ''0'';
           condition = strip l4
       in print_query (select_query cols table_name condition limit offset)))))"

definition file_branch :: "env \<Rightarrow> string \<Rightarrow> string \<Rightarrow> unit io" where
  "file_branch e operation table_name =
     bind_io (py_input ''Enter full path of the CSV/Excel file: '') (\<lambda>l.
       let file_path = realpath e l
       in bind_io (read_input_file e file_path) (\<lambda>df.
          bind_io
            (if operation = ''insert'' then return_io (generate_insert_queries df table_name)
             else bind_io (py_input ''Enter the condition for updating rows (e.g., WHERE id = 1): '')
                    (\<lambda>condition.
                       case generate_update_queries df table_name condition of
                         Inl err \<Rightarrow> raise_io err
                       | Inr sql_query \<Rightarrow> return_io sql_query))
            (\<lambda>sql_query.
               let output_file_path = get_output_file_name file_path
               in bind_io (write_queries_to_file sql_query output_file_path) (\<lambda>_.
                  py_print (''SQL queries have been written to '' @ output_file_path)))))"

definition delete_branch :: "string \<Rightarrow> unit io" where
  "delete_branch table_name =
     bind_io (py_input ''Enter the condition for DELETE (e.g., id=10): '') (\<lambda>condition.
       print_query (''DELETE FROM '' @ table_name @ '' WHERE '' @ condition @ '';''))"

definition create_table_branch :: "string \<Rightarrow> unit io" where
  "create_table_branch table_name =
     bind_io read_columns (\<lambda>coldict.
       print_query (''CREATE TABLE '' @ table_name @ '' ('' @ repr_dict coldict @ '');''))"

definition drop_table_branch :: "string \<Rightarrow> unit io" where
  "drop_table_branch table_name = print_query (''DROP TABLE IF EXISTS '' @ table_name @ '';'')"

definition alter_table_branch :: "string \<Rightarrow> unit io" where
  "alter_table_branch table_name =
     bind_io (py_input ''Enter the ALTER TABLE statement (e.g., ADD COLUMN age INT): '')
       (\<lambda>alter_statement.
          print_query (''ALTER TABLE '' @ table_name @ '' '' @ alter_statement @ '';''))"

definition create_view_branch :: "unit io" where
  "create_view_branch =
     bind_io read_view_name (\<lambda>view_name.
     bind_io (py_input ''Enter the SELECT statement (e.g., SELECT id, name FROM users): '')
       (\<lambda>select_statement.
          print_query (''CREATE VIEW '' @ view_name @ '' AS '' @ select_statement @ '';'')))"

definition drop_view_branch :: "unit io" where
  "drop_view_branch =
     bind_io read_view_name (\<lambda>view_name.
       print_query (''DROP VIEW IF EXISTS '' @ view_name @ '';''))"

text \<open>The chain of \<open>if\<close> and \<open>elif\<close> of lines 150 to 237.\<close>

definition run_operation :: "env \<Rightarrow> string \<Rightarrow> string \<Rightarrow> unit io" where
  "run_operation e operation table_name =
     (if operation = ''select'' then select_branch table_name
      else if operation \<in> set [''insert'', ''update''] then file_branch e operation table_name
      else if operation = ''delete'' then delete_branch table_name
      else if operation = ''create_table'' then create_table_branch table_name
      else if operation = ''drop_table'' then drop_table_branch table_name
      else if operation = ''alter_table'' then alter_table_branch table_name
      else if operation = ''create_view'' then create_view_branch
      else if operation = ''drop_view'' then drop_view_branch
      else return_io ())"

definition read_table_name :: "string io" where
  "read_table_name =
     read_name ''Enter the table name: '' ''Table name cannot be empty. Please enter a valid table name.''"

definition main :: "env \<Rightarrow> unit io" where
  "main e =
     bind_io show_warning (\<lambda>_.
     bind_io (get_user_selection operations ''Choose an SQL operation to perform:'') (\<lambda>operation.
     bind_io read_table_name (\<lambda>table_name.
       run_operation e operation table_name)))"

text \<open>
  A line the selection loop rejects, and the message that answers it.
\<close>

definition rejected :: "string list \<Rightarrow> string \<Rightarrow> bool" where
  "rejected options l =
     (case py_int l of None \<Rightarrow> True | Some k \<Rightarrow> k < 1 \<or> int (length options) < k)"

definition rejection :: "string list \<Rightarrow> string \<Rightarrow> string" where
  "rejection options l =
     (case py_int l of None \<Rightarrow> invalid_message | Some k \<Rightarrow> range_message options)"

text \<open>
  The input lines of a list of complete column entries (name, type, default, key), the
  prompts they are asked with, and the dictionary the loop has built after them.
\<close>

definition column_lines :: "(string \<times> string \<times> string \<times> string) list \<Rightarrow> string list" where
  "column_lines cols = concat (map (\<lambda>(n, ty, dflt, k). [n, ty, dflt, k]) cols)"

definition column_prompts :: "(string \<times> string \<times> string \<times> string) list \<Rightarrow> string list" where
  "column_prompts cols =
     concat (map (\<lambda>(n, ty, dflt, k). [name_prompt, type_prompt n, default_prompt n, key_prompt n]) cols)"

definition collect_columns ::
  "(string \<times> string) list \<Rightarrow> (string \<times> string \<times> string \<times> string) list \<Rightarrow> (string \<times> string) list" where
  "collect_columns d cols =
     foldl (\<lambda>d (n, ty, dflt, k).
        dict_set d n (ty @ '' '' @ k @ '' '' @ (if dflt = [] then [] else ''DEFAULT '' @ dflt))) d cols"

text \<open>\<open>contains frag s\<close>: the text \<open>frag\<close> occurs in \<open>s\<close>, as \<open>frag in s\<close> of Python.\<close>

fun starts_with :: "string \<Rightarrow> string \<Rightarrow> bool" where
  "starts_with [] s = True"
| "starts_with (c # cs) [] = False"
| "starts_with (c # cs) (d # ds) = (c = d \<and> starts_with cs ds)"

fun contains :: "string \<Rightarrow> string \<Rightarrow> bool" where
  "contains frag [] = (frag = [])"
| "contains frag (c # cs) = (starts_with frag (c # cs) \<or> contains frag cs)"

text \<open>A computation keeps the files when it neither reads nor changes any, in every world.\<close>

definition keeps_files :: "'a io \<Rightarrow> bool" where
  "keeps_files m = (\<forall>w. fsys (snd (m w)) = fsys w \<and> files_read (snd (m w)) = files_read w)"

section \<open>Properties\<close>

lemma is_space_lower_char: "is_space (lower_char c) = is_space c"
proof (cases "is_upper c")
  case False
  then show ?thesis by (simp add: lower_char_def)
next
  case True
  then have "code c + 32 < 256"
    by (auto simp: is_upper_def)
  with True have "code (lower_char c) = code c + 32"
    by (simp add: lower_char_def code_def)
  with True show ?thesis
    by (auto simp: is_space_def is_upper_def)
qed

lemma dropWhile_lower: "dropWhile is_space (lower s) = lower (dropWhile is_space s)"
  by (induction s) (simp_all add: lower_def is_space_lower_char)

lemma lower_strip: "lower (strip s) = strip (lower s)"
proof -
  have r: "rev (lower t) = lower (rev t)" for t
    by (simp add: lower_def rev_map)
  have "lower (strip s) = rev (lower (dropWhile is_space (rev (dropWhile is_space s))))"
    by (simp add: strip_def lstrip_def rstrip_def r)
  also have "\<dots> = rev (dropWhile is_space (rev (dropWhile is_space (lower s))))"
    by (simp only: dropWhile_lower [symmetric] r [symmetric])
  finally show ?thesis
    by (simp add: strip_def lstrip_def rstrip_def)
qed

text \<open>
  C1. The formatter returns the token \<open>NULL\<close> exactly when the cell is missing or its
  trimmed, lower-cased text is empty, \<open>null\<close> or \<open>-\<close>; in every other case it returns
  the raw text between two single quotes, nothing escaped. Trimming and lower-casing
  commute, so the order in which the two are applied does not matter.
\<close>

theorem format_value_spec:
  "(format_value v = ''NULL'' \<longleftrightarrow>
      (v = Missing \<or> lower (strip (str_cell v)) \<in> {'''', ''null'', ''-''})) \<and>
   format_value v =
     (if v = Missing \<or> strip (lower (str_cell v)) \<in> {'''', ''null'', ''-''}
      then ''NULL'' else [CHR 0x27] @ str_cell v @ [CHR 0x27])"
  by (cases v) (auto simp: format_value_def has_value_def sq_def lower_strip)

subsection \<open>INSERT\<close>

lemma insert_loop_acc: "insert_loop rs acc = acc @ map row_tuple rs"
  by (induction rs arbitrary: acc) simp_all

text \<open>
  C2. One statement for the whole table: the column labels unquoted and joined by a
  comma and a space, then a single \<open>VALUES\<close> and one parenthesised tuple per row, the
  tuples joined by a comma and a space, each the formatter's outputs in column order.
  The table of the example gives the statement of the example, and a table with no row
  gives a statement that ends in \<open>VALUES ;\<close>.
\<close>

theorem generate_insert_queries_spec:
  "generate_insert_queries df t =
     ''INSERT INTO '' @ t @ '' ('' @ join '', '' (columns df) @ '') VALUES '' @
     join '', '' (map (\<lambda>row. ''('' @ join '', '' (map format_value row) @ '')'') (rows df)) @ '';''
   \<and> generate_insert_queries \<lparr>columns = [''id'', ''name''],
        rows = [[IntCell 1, StrCell ''Alice''], [IntCell 2, StrCell ''-'']]\<rparr> ''users'' =
      ''INSERT INTO users (id, name) VALUES ('1', 'Alice'), ('2', NULL);''
   \<and> generate_insert_queries \<lparr>columns = cs, rows = []\<rparr> t =
      ''INSERT INTO '' @ t @ '' ('' @ join '', '' cs @ '') VALUES ;''"
proof (intro conjI)
  show "generate_insert_queries df t =
     ''INSERT INTO '' @ t @ '' ('' @ join '', '' (columns df) @ '') VALUES '' @
     join '', '' (map (\<lambda>row. ''('' @ join '', '' (map format_value row) @ '')'') (rows df)) @ '';''"
    by (simp add: generate_insert_queries_def insert_loop_acc row_tuple_def [abs_def])
  show "generate_insert_queries \<lparr>columns = [''id'', ''name''],
        rows = [[IntCell 1, StrCell ''Alice''], [IntCell 2, StrCell ''-'']]\<rparr> ''users'' =
      ''INSERT INTO users (id, name) VALUES ('1', 'Alice'), ('2', NULL);''"
    by code_simp
  show "generate_insert_queries \<lparr>columns = cs, rows = []\<rparr> t =
      ''INSERT INTO '' @ t @ '' ('' @ join '', '' cs @ '') VALUES ;''"
    by (simp add: generate_insert_queries_def)
qed

subsection \<open>UPDATE\<close>

lemma filter_label_absent:
  "col \<notin> set ks \<Longrightarrow> filter (\<lambda>kv. fst kv = col) (zip ks vs) = []"
  by (induction ks arbitrary: vs) (auto simp: zip_Cons1 split: list.splits)

lemma series_get_unique:
  assumes "col \<notin> set pre" "col \<notin> set post" "length pre = length prevals"
  shows "series_get (zip (pre @ col # post) (prevals @ v # vs)) col = Inr v"
  using assms by (simp add: series_get_def filter_label_absent)

lemma set_items_suffix:
  "distinct (pre @ cols) \<Longrightarrow> length pre = length prevals \<Longrightarrow> length cols = length vals \<Longrightarrow>
   set_items (zip (pre @ cols) (prevals @ vals)) cols = Inr (set_clause_items cols vals)"
proof (induction cols arbitrary: pre prevals vals)
  case Nil
  then show ?case by (simp add: set_clause_items_def)
next
  case (Cons col cols)
  then obtain v vs where vals: "vals = v # vs" by (cases vals) auto
  from Cons.prems have g: "series_get (zip (pre @ col # cols) (prevals @ v # vs)) col = Inr v"
    by (intro series_get_unique) auto
  from Cons.prems vals
  have "set_items (zip ((pre @ [col]) @ cols) ((prevals @ [v]) @ vs)) cols =
          Inr (set_clause_items cols vs)"
    by (intro Cons.IH) auto
  then have ih: "set_items (zip (pre @ col # cols) (prevals @ v # vs)) cols =
          Inr (set_clause_items cols vs)"
    by simp
  show ?case
    unfolding vals set_items.simps g ih
    by (simp add: set_clause_items_def sq_def)
qed

lemma set_items_row:
  "distinct cols \<Longrightarrow> length row = length cols \<Longrightarrow>
   set_items (zip cols row) cols = Inr (set_clause_items cols row)"
  using set_items_suffix [of "[]" cols "[]" row] by simp

lemma update_query_row:
  "distinct cols \<Longrightarrow> length row = length cols \<Longrightarrow>
   update_query t c cols (zip cols row) = Inr (update_statement t c cols row)"
  by (simp add: update_query_def set_items_row update_statement_def)

lemma update_loop_acc:
  "distinct cols \<Longrightarrow> list_all (\<lambda>row. length row = length cols) rs \<Longrightarrow>
   update_loop t c cols (map (zip cols) rs) acc = Inr (acc @ map (update_statement t c cols) rs)"
  by (induction rs arbitrary: acc) (simp_all add: update_query_row)

lemma generate_update_queries_wf:
  "wf_frame df \<Longrightarrow>
   generate_update_queries df t c =
     Inr (join nl (map (update_statement t c (columns df)) (rows df)))"
  by (simp add: generate_update_queries_def iterrows_def wf_frame_def update_loop_acc)

lemma update_loop_wf:
  "wf_frame df \<Longrightarrow>
   update_loop t c (columns df) (iterrows df) [] =
     Inr (map (update_statement t c (columns df)) (rows df))"
  by (simp add: iterrows_def wf_frame_def update_loop_acc)

lemma has_value_iff:
  "has_value v = (v \<noteq> Missing \<and> lower (strip (str_cell v)) \<notin> {'''', ''null'', ''-''})"
  by (cases v) (auto simp: has_value_def)

lemma set_clause_items_none:
  assumes "list_all (\<lambda>v. \<not> has_value v) row"
  shows "set_clause_items cols row = []"
proof -
  from assms have "\<forall>kv\<in>set (zip cols row). \<not> has_value (snd kv)"
    by (auto simp: list_all_iff dest: set_zip_rightD)
  then show ?thesis
    by (simp add: set_clause_items_def filter_empty_conv)
qed

text \<open>
  C3. On a rectangular frame with unique labels, the SET clause of every row holds
  exactly the columns whose cell is neither missing nor, trimmed and lower-cased, empty,
  \<open>null\<close> or \<open>-\<close>: each as the label, \<open> = \<close> and the raw text in single quotes, joined by
  a comma and a space in column order. The other columns are left out, none is written
  as \<open>col = NULL\<close>; when no column of any row is left the statements read
  \<open>SET  WHERE\<close>. The two rows of the example give the two statements of the example.
\<close>

theorem generate_update_queries_set_clause:
  assumes "wf_frame df"
  shows "generate_update_queries df t c =
     Inr (join nl (map (\<lambda>row.
       ''UPDATE '' @ t @ '' SET '' @
       join '', '' (map (\<lambda>kv. fst kv @ '' = '' @ [CHR 0x27] @ str_cell (snd kv) @ [CHR 0x27])
         (filter (\<lambda>kv. snd kv \<noteq> Missing \<and>
                    lower (strip (str_cell (snd kv))) \<notin> {'''', ''null'', ''-''})
            (zip (columns df) row))) @
       '' WHERE '' @ c @ '';'') (rows df)))
   \<and> (list_all (list_all (\<lambda>v. v = Missing \<or>
             lower (strip (str_cell v)) \<in> {'''', ''null'', ''-''})) (rows df) \<longrightarrow>
         generate_update_queries df t c =
           Inr (join nl (map (\<lambda>row. ''UPDATE '' @ t @ '' SET  WHERE '' @ c @ '';'') (rows df))))
   \<and> generate_update_queries \<lparr>columns = [''id'', ''name''],
        rows = [[IntCell 1, StrCell ''Alice''], [IntCell 2, StrCell ''-'']]\<rparr> ''users'' ''id = 1'' =
      Inr (''UPDATE users SET id = '1', name = 'Alice' WHERE id = 1;'' @ [CHR 0x0A] @
           ''UPDATE users SET id = '2' WHERE id = 1;'')"
proof (intro conjI impI)
  from assms show "generate_update_queries df t c =
     Inr (join nl (map (\<lambda>row.
       ''UPDATE '' @ t @ '' SET '' @
       join '', '' (map (\<lambda>kv. fst kv @ '' = '' @ [CHR 0x27] @ str_cell (snd kv) @ [CHR 0x27])
         (filter (\<lambda>kv. snd kv \<noteq> Missing \<and>
                    lower (strip (str_cell (snd kv))) \<notin> {'''', ''null'', ''-''})
            (zip (columns df) row))) @
       '' WHERE '' @ c @ '';'') (rows df)))"
    by (simp add: generate_update_queries_wf update_statement_def [abs_def]
        set_clause_items_def has_value_iff)
next
  assume a: "list_all (list_all (\<lambda>v. v = Missing \<or>
             lower (strip (str_cell v)) \<in> {'''', ''null'', ''-''})) (rows df)"
  have "set_clause_items (columns df) row = []" if "row \<in> set (rows df)" for row
  proof -
    from a that have "list_all (\<lambda>v. \<not> has_value v) row"
      by (auto simp: list_all_iff has_value_iff)
    then show ?thesis by (rule set_clause_items_none)
  qed
  then have eq: "map (update_statement t c (columns df)) (rows df) =
             map (\<lambda>row. ''UPDATE '' @ t @ '' SET  WHERE '' @ c @ '';'') (rows df)"
    by (simp add: update_statement_def)
  from assms show "generate_update_queries df t c =
           Inr (join nl (map (\<lambda>row. ''UPDATE '' @ t @ '' SET  WHERE '' @ c @ '';'') (rows df)))"
    by (simp only: generate_update_queries_wf eq)
next
  show "generate_update_queries \<lparr>columns = [''id'', ''name''],
        rows = [[IntCell 1, StrCell ''Alice''], [IntCell 2, StrCell ''-'']]\<rparr> ''users'' ''id = 1'' =
      Inr (''UPDATE users SET id = '1', name = 'Alice' WHERE id = 1;'' @ [CHR 0x0A] @
           ''UPDATE users SET id = '2' WHERE id = 1;'')"
    by code_simp
qed

theorem generate_update_queries_set_clause_witness:
  "wf_frame \<lparr>columns = [''a'', ''b''], rows = [[Missing, StrCell '' NULL ''], [StrCell ''-'', StrCell '''']]\<rparr>
   \<and> list_all (list_all (\<lambda>v. v = Missing \<or> lower (strip (str_cell v)) \<in> {'''', ''null'', ''-''}))
        (rows \<lparr>columns = [''a'', ''b''], rows = [[Missing, StrCell '' NULL ''], [StrCell ''-'', StrCell '''']]\<rparr>)
   \<and> generate_update_queries
        \<lparr>columns = [''a'', ''b''], rows = [[Missing, StrCell '' NULL ''], [StrCell ''-'', StrCell '''']]\<rparr>
        ''t'' ''id = 1'' =
      Inr (''UPDATE t SET  WHERE id = 1;'' @ [CHR 0x0A] @ ''UPDATE t SET  WHERE id = 1;'')"
proof -
  let ?F = "\<lparr>columns = [''a'', ''b''], rows = [[Missing, StrCell '' NULL ''], [StrCell ''-'', StrCell '''']]\<rparr>"
  have wf: "wf_frame ?F"
    by (simp add: wf_frame_def)
  have s: "list_all (list_all (\<lambda>v. v = Missing \<or> lower (strip (str_cell v)) \<in> {'''', ''null'', ''-''}))
        (rows ?F)"
    by code_simp
  from generate_update_queries_set_clause [OF wf, of "''t''" "''id = 1''"] s
  have "generate_update_queries ?F ''t'' ''id = 1'' =
      Inr (join nl (map (\<lambda>row. ''UPDATE '' @ ''t'' @ '' SET  WHERE '' @ ''id = 1'' @ '';'') (rows ?F)))"
    by blast
  then have "generate_update_queries ?F ''t'' ''id = 1'' =
      Inr (''UPDATE t SET  WHERE id = 1;'' @ [CHR 0x0A] @ ''UPDATE t SET  WHERE id = 1;'')"
    by (simp add: nl_def)
  with wf s show ?thesis by blast
qed

text \<open>
  C4. On a rectangular frame with unique labels and for every condition, the loop builds
  as many statements as the frame has rows, the result is these statements joined by
  single newlines, and every statement ends with \<open>WHERE\<close>, the condition as it was given
  and a semicolon.
\<close>

theorem generate_update_queries_count:
  assumes "wf_frame df"
  shows "\<exists>queries.
           update_loop t c (columns df) (iterrows df) [] = Inr queries \<and>
           generate_update_queries df t c = Inr (join nl queries) \<and>
           length queries = length (rows df) \<and>
           list_all (\<lambda>q. \<exists>pre. q = pre @ '' WHERE '' @ c @ '';'') queries"
proof (intro exI conjI)
  from assms show "update_loop t c (columns df) (iterrows df) [] =
      Inr (map (update_statement t c (columns df)) (rows df))"
    by (rule update_loop_wf)
  from assms show "generate_update_queries df t c =
      Inr (join nl (map (update_statement t c (columns df)) (rows df)))"
    by (rule generate_update_queries_wf)
  show "length (map (update_statement t c (columns df)) (rows df)) = length (rows df)"
    by simp
  have "\<exists>pre. update_statement t c (columns df) row = pre @ '' WHERE '' @ c @ '';''" for row
    unfolding update_statement_def
    by (rule exI [of _ "''UPDATE '' @ t @ '' SET '' @ join '', '' (set_clause_items (columns df) row)"]) simp
  then show "list_all (\<lambda>q. \<exists>pre. q = pre @ '' WHERE '' @ c @ '';'')
      (map (update_statement t c (columns df)) (rows df))"
    by (simp add: list_all_iff)
qed

theorem generate_update_queries_count_witness:
  "wf_frame \<lparr>columns = [''id'', ''name''],
        rows = [[IntCell 1, StrCell ''Alice''], [IntCell 2, StrCell ''-'']]\<rparr>
   \<and> (\<exists>queries.
        generate_update_queries \<lparr>columns = [''id'', ''name''],
          rows = [[IntCell 1, StrCell ''Alice''], [IntCell 2, StrCell ''-'']]\<rparr> ''users'' ''id = 1'' =
          Inr (join nl queries) \<and>
        length queries = 2 \<and>
        list_all (\<lambda>q. \<exists>pre. q = pre @ '' WHERE id = 1;'') queries)"
proof -
  let ?F = "\<lparr>columns = [''id'', ''name''],
        rows = [[IntCell 1, StrCell ''Alice''], [IntCell 2, StrCell ''-'']]\<rparr>"
  have wf: "wf_frame ?F"
    by (simp add: wf_frame_def)
  from generate_update_queries_count [OF wf, of "''users''" "''id = 1''"]
  obtain queries where
    "generate_update_queries ?F ''users'' ''id = 1'' = Inr (join nl queries)"
    "length queries = length (rows ?F)"
    "list_all (\<lambda>q. \<exists>pre. q = pre @ '' WHERE '' @ ''id = 1'' @ '';'') queries"
    by blast
  then have "generate_update_queries ?F ''users'' ''id = 1'' = Inr (join nl queries) \<and>
        length queries = 2 \<and>
        list_all (\<lambda>q. \<exists>pre. q = pre @ '' WHERE id = 1;'') queries"
    by simp
  with wf show ?thesis by blast
qed

subsection \<open>The console session\<close>

lemma py_input_cons:
  "py_input prompt (w\<lparr>stdin := l # rest\<rparr>) = (Inr l, w\<lparr>stdin := rest, stdout := stdout w @ [prompt]\<rparr>)"
  by (simp add: py_input_def)

lemma bind_io_Inr: "m w = (Inr x, w') \<Longrightarrow> bind_io m k w = k x w'"
  by (simp add: bind_io_def)

lemma bind_io_Inl: "m w = (Inl err, w') \<Longrightarrow> bind_io m k w = (Inl err, w')"
  by (simp add: bind_io_def)

lemma bind_py_input_cons:
  "bind_io (py_input prompt) k (w\<lparr>stdin := l # rest\<rparr>) =
     k l (w\<lparr>stdin := rest, stdout := stdout w @ [prompt]\<rparr>)"
  by (simp add: bind_io_def py_input_def)

lemma bind_py_input_cons':
  "stdin w = l # rest \<Longrightarrow> bind_io (py_input prompt) k w =
     k l (w\<lparr>stdin := rest, stdout := stdout w @ [prompt]\<rparr>)"
  by (simp add: bind_io_def py_input_def)

lemma select_branch_lines:
  "select_branch t (w\<lparr>stdin := l1 # l2 # l3 # l4 # rest\<rparr>) =
     (Inr (), w\<lparr>stdin := rest,
        stdout := stdout w @
          [''Enter the columns to select (comma-separated, or * for all): '',
           ''Enter the limit (default is 10): '',
           ''Enter the offset (default is 0): '',
           ''Enter any conditions (or leave blank): '',
           ''Generated SQL Query:'' @ nl @
           ''SELECT '' @ join '', '' (str_split CHR '','' (strip l1)) @ '' FROM '' @ t @
           '' WHERE '' @ strip l4 @
           '' LIMIT '' @ (if strip l2 = [] then ''10'' else strip l2) @
           '' OFFSET '' @ (if strip l3 = [] then ''0'' else strip l3) @ '';'' @ nl]\<rparr>)"
  by (simp add: select_branch_def bind_py_input_cons' print_query_def py_print_def
      select_query_def or_default_def Let_def)

lemma keeps_return: "keeps_files (return_io x)"
  by (simp add: keeps_files_def return_io_def)

lemma keeps_raise: "keeps_files (raise_io x)"
  by (simp add: keeps_files_def raise_io_def)

lemma keeps_print: "keeps_files (py_print s)"
  by (simp add: keeps_files_def py_print_def)

lemma keeps_input: "keeps_files (py_input s)"
  by (simp add: keeps_files_def py_input_def split: list.splits)

lemma keeps_bind:
  assumes "keeps_files m" and "\<And>x. keeps_files (k x)"
  shows "keeps_files (bind_io m k)"
  unfolding keeps_files_def
proof
  fix w
  obtain r w' where mw: "m w = (r, w')" by (cases "m w")
  with assms(1) have w': "fsys w' = fsys w" "files_read w' = files_read w"
    by (auto simp: keeps_files_def dest: spec [of _ w])
  show "fsys (snd (bind_io m k w)) = fsys w \<and> files_read (snd (bind_io m k w)) = files_read w"
  proof (cases r)
    case (Inl err)
    with mw w' show ?thesis by (simp add: bind_io_def)
  next
    case (Inr x)
    with mw have "bind_io m k w = k x w'" by (simp add: bind_io_def)
    with assms(2) [of x] w' show ?thesis by (simp add: keeps_files_def)
  qed
qed

lemma keeps_read_name: "keeps_files (read_name p c)"
  by (simp add: keeps_files_def read_name_def split: prod.splits)

lemma keeps_read_columns: "keeps_files read_columns"
  by (simp add: keeps_files_def read_columns_def split: prod.splits)

lemma keeps_print_query: "keeps_files (print_query q)"
  by (simp add: print_query_def keeps_print)

lemma keeps_select_branch: "keeps_files (select_branch t)"
  unfolding select_branch_def Let_def
  by (intro keeps_bind keeps_input keeps_print_query)

lemma keeps_free_form:
  assumes "op \<noteq> ''insert''" "op \<noteq> ''update''"
  shows "keeps_files (run_operation e op t)"
  using assms
  unfolding run_operation_def delete_branch_def create_table_branch_def drop_table_branch_def
    alter_table_branch_def create_view_branch_def drop_view_branch_def read_view_name_def
  by (auto intro!: keeps_bind keeps_input keeps_print_query keeps_read_name keeps_read_columns
      keeps_return keeps_select_branch)

text \<open>
  C6. In the SELECT branch a limit line that is blank becomes \<open>10\<close> and an offset line
  that is blank becomes \<open>0\<close>. With the table \<open>t\<close>, the columns \<open>*\<close> and three blank lines
  the text printed is \<open>SELECT * FROM t WHERE  LIMIT 10 OFFSET 0;\<close>, two spaces standing
  between \<open>WHERE\<close> and \<open>LIMIT\<close>. The branch prints the statement and leaves the file
  system and the list of files read as they were, whatever the input.
\<close>

theorem select_defaults:
  "run_operation e ''select'' t (w\<lparr>stdin := l1 # l2 # l3 # l4 # rest\<rparr>) =
     (Inr (), w\<lparr>stdin := rest,
        stdout := stdout w @
          [''Enter the columns to select (comma-separated, or * for all): '',
           ''Enter the limit (default is 10): '',
           ''Enter the offset (default is 0): '',
           ''Enter any conditions (or leave blank): '',
           ''Generated SQL Query:'' @ [CHR 0x0A] @
           ''SELECT '' @ join '', '' (str_split CHR '','' (strip l1)) @ '' FROM '' @ t @
           '' WHERE '' @ strip l4 @
           '' LIMIT '' @ (if strip l2 = [] then ''10'' else strip l2) @
           '' OFFSET '' @ (if strip l3 = [] then ''0'' else strip l3) @ '';'' @ [CHR 0x0A]]\<rparr>)
   \<and> run_operation e ''select'' ''t'' (w\<lparr>stdin := [''*'', [], [], []]\<rparr>) =
     (Inr (), w\<lparr>stdin := [],
        stdout := stdout w @
          [''Enter the columns to select (comma-separated, or * for all): '',
           ''Enter the limit (default is 10): '',
           ''Enter the offset (default is 0): '',
           ''Enter any conditions (or leave blank): '',
           ''Generated SQL Query:'' @ [CHR 0x0A] @
           ''SELECT * FROM t WHERE  LIMIT 10 OFFSET 0;'' @ [CHR 0x0A]]\<rparr>)
   \<and> fsys (snd (run_operation e ''select'' t w)) = fsys w
   \<and> files_read (snd (run_operation e ''select'' t w)) = files_read w"
proof -
  have op: "run_operation e ''select'' t' = select_branch t'" for t'
    by (simp add: run_operation_def)
  have blank: "strip [] = []" and star: "strip ''*'' = ''*''"
    by code_simp+
  have "keeps_files (select_branch t)"
    by (rule keeps_select_branch)
  then have "fsys (snd (select_branch t w)) = fsys w \<and>
             files_read (snd (select_branch t w)) = files_read w"
    by (simp add: keeps_files_def)
  then show ?thesis
    unfolding op select_branch_lines
    by (simp add: blank star nl_def)
qed

subsection \<open>Unsupported input format\<close>

lemma bind_raise: "bind_io (raise_io err) k w = (Inl err, w)"
  by (simp add: bind_io_def raise_io_def)

text \<open>
  C7. When the extension of the resolved path, lower-cased, is none of \<open>.csv\<close>, \<open>.xls\<close>
  and \<open>.xlsx\<close>, the reader raises the \<open>ValueError\<close> of the unsupported format and calls no
  reader of pandas. In the INSERT and UPDATE branches the exception ends the run after
  the one prompt for the path: no further line is read, nothing is asked again, and the
  file system is the one the run started with.
\<close>

theorem unsupported_extension:
  assumes "lower (snd (splitext (realpath e l))) \<notin> {''.csv'', ''.xls'', ''.xlsx''}"
      and "operation \<in> {''insert'', ''update''}"
  shows "read_input_file e (realpath e l) w =
           (Inl (ValueError ''Unsupported file format. Please provide a CSV or Excel file.''), w)
     \<and> run_operation e operation t (w\<lparr>stdin := l # rest\<rparr>) =
           (Inl (ValueError ''Unsupported file format. Please provide a CSV or Excel file.''),
            w\<lparr>stdin := rest, stdout := stdout w @ [''Enter full path of the CSV/Excel file: '']\<rparr>)"
proof -
  from assms(1) have r: "read_input_file e (realpath e l) =
      raise_io (ValueError ''Unsupported file format. Please provide a CSV or Excel file.'')"
    by (simp add: read_input_file_def Let_def)
  from assms(2) have op: "run_operation e operation t = file_branch e operation t"
    by (auto simp: run_operation_def)
  show ?thesis
    unfolding op
    by (simp add: file_branch_def bind_py_input_cons Let_def r bind_raise) (simp add: raise_io_def)
qed

theorem unsupported_extension_witness:
  "lower (snd (splitext (realpath \<lparr>realpath = (\<lambda>p. p), read_csv = (\<lambda>p f. Inr \<lparr>columns = [], rows = []\<rparr>),
        read_excel = (\<lambda>p f. Inr \<lparr>columns = [], rows = []\<rparr>)\<rparr> ''/tmp/data.txt''))) = ''.txt''
   \<and> run_operation \<lparr>realpath = (\<lambda>p. p), read_csv = (\<lambda>p f. Inr \<lparr>columns = [], rows = []\<rparr>),
        read_excel = (\<lambda>p f. Inr \<lparr>columns = [], rows = []\<rparr>)\<rparr> ''insert'' ''users''
        \<lparr>stdin = [''/tmp/data.txt''], stdout = [], fsys = \<lparr>dirs = {}, files = Map.empty\<rparr>, files_read = []\<rparr> =
      (Inl (ValueError ''Unsupported file format. Please provide a CSV or Excel file.''),
       \<lparr>stdin = [], stdout = [''Enter full path of the CSV/Excel file: ''],
        fsys = \<lparr>dirs = {}, files = Map.empty\<rparr>, files_read = []\<rparr>)"
proof -
  let ?e = "\<lparr>realpath = (\<lambda>p. p), read_csv = (\<lambda>p f. Inr \<lparr>columns = [], rows = []\<rparr>),
        read_excel = (\<lambda>p f. Inr \<lparr>columns = [], rows = []\<rparr>)\<rparr>"
  let ?w = "\<lparr>stdin = [], stdout = [], fsys = \<lparr>dirs = {}, files = Map.empty\<rparr>, files_read = []\<rparr>"
  have ext: "lower (snd (splitext ''/tmp/data.txt'')) = ''.txt''"
    by code_simp
  then have h: "lower (snd (splitext (realpath ?e ''/tmp/data.txt''))) \<notin> {''.csv'', ''.xls'', ''.xlsx''}"
    by simp
  have o: "''insert'' \<in> {''insert'', ''update''}" by simp
  from unsupported_extension [OF h o, where t = "''users''" and w = ?w and rest = "[]"] ext
  show ?thesis by simp
qed

subsection \<open>Menu selection\<close>

lemma selection_loop_rejected:
  assumes "list_all (rejected options) bad"
  shows "selection_loop options (bad @ ins) out =
     selection_loop options ins
       (out @ concat (map (\<lambda>l. [choice_prompt options, rejection options l]) bad))"
  using assms
proof (induction bad arbitrary: out)
  case Nil
  then show ?case by simp
next
  case (Cons l bad)
  then have l: "rejected options l" and bad: "list_all (rejected options) bad"
    by simp_all
  show ?case
  proof (cases "py_int l")
    case None
    then show ?thesis
      using Cons.IH [OF bad] by (simp add: rejection_def)
  next
    case (Some k)
    with l have c: "\<not> (1 \<le> k \<and> k \<le> int (length options))"
      by (auto simp: rejected_def)
    have "selection_loop options (l # (bad @ ins)) out =
        selection_loop options (bad @ ins) (out @ [choice_prompt options, range_message options])"
      by (simp only: selection_loop.simps Some option.case if_not_P [OF c])
    with Some show ?thesis
      using Cons.IH [OF bad] by (simp add: rejection_def)
  qed
qed

text \<open>
  C8. Let the first lines of the input each be rejected (not an integer, or an integer
  below 1, as \<open>0\<close> is, or above the number of options) and let the next line be an
  integer \<open>k\<close> from 1 to the number of options. Then the selection returns the option at
  the 1-based index \<open>k\<close>, no exception surfaces, every rejected line is answered by its
  message and a new prompt, and exactly the lines up to the accepted one are consumed.
\<close>

theorem get_user_selection_spec:
  assumes "list_all (\<lambda>l. case py_int l of None \<Rightarrow> True
                         | Some j \<Rightarrow> j < 1 \<or> int (length options) < j) bad"
      and "py_int good = Some k" and "1 \<le> k" and "k \<le> int (length options)"
  shows "get_user_selection options prompt (w\<lparr>stdin := bad @ good # rest\<rparr>) =
     (Inr (options ! (nat k - 1)),
      w\<lparr>stdin := rest,
        stdout := stdout w @ [prompt @ [CHR 0x0A]] @ option_lines 1 options @
          concat (map (\<lambda>l. [choice_prompt options,
                    case py_int l of None \<Rightarrow> ''Invalid input, please enter a number.'' @ [CHR 0x0A]
                    | Some j \<Rightarrow> ''Please enter a number between 1 and '' @
                        str_nat (length options) @ ''.'' @ [CHR 0x0A]]) bad) @
          [choice_prompt options]\<rparr>)
     \<and> py_int ''0'' = Some 0"
proof -
  from assms(1) have bad: "list_all (rejected options) bad"
    by (simp add: rejected_def [abs_def])
  have rej: "(\<lambda>l. [choice_prompt options, rejection options l]) =
      (\<lambda>l. [choice_prompt options,
                    case py_int l of None \<Rightarrow> ''Invalid input, please enter a number.'' @ [CHR 0x0A]
                    | Some j \<Rightarrow> ''Please enter a number between 1 and '' @
                        str_nat (length options) @ ''.'' @ [CHR 0x0A]])"
    by (rule ext) (simp add: rejection_def invalid_message_def range_message_def nl_def
        split: option.splits)
  have n: "nat (k - 1) = nat k - 1"
    by simp
  have z: "py_int ''0'' = Some 0"
    by code_simp
  from assms(2-4) have "selection_loop options (good # rest) out =
      (Inr (options ! (nat k - 1)), rest, out @ [choice_prompt options])" for out
    by (simp add: n)
  then show ?thesis
    by (simp add: get_user_selection_def selection_loop_rejected [OF bad] rej z nl_def)
qed

theorem get_user_selection_spec_witness:
  "list_all (\<lambda>l. case py_int l of None \<Rightarrow> True
                  | Some j \<Rightarrow> j < 1 \<or> int (length operations) < j) [''0'', ''10'', ''abc'', []]
   \<and> py_int '' 2 '' = Some 2
   \<and> fst (get_user_selection operations ''Choose an SQL operation to perform:''
        \<lparr>stdin = [''0'', ''10'', ''abc'', [], '' 2 '', ''users''], stdout = [],
         fsys = \<lparr>dirs = {}, files = Map.empty\<rparr>, files_read = []\<rparr>) = Inr ''insert''
   \<and> stdin (snd (get_user_selection operations ''Choose an SQL operation to perform:''
        \<lparr>stdin = [''0'', ''10'', ''abc'', [], '' 2 '', ''users''], stdout = [],
         fsys = \<lparr>dirs = {}, files = Map.empty\<rparr>, files_read = []\<rparr>)) = [''users'']"
proof -
  let ?w = "\<lparr>stdin = [], stdout = [], fsys = \<lparr>dirs = {}, files = Map.empty\<rparr>, files_read = []\<rparr>"
  have bad: "list_all (\<lambda>l. case py_int l of None \<Rightarrow> True
                  | Some j \<Rightarrow> j < 1 \<or> int (length operations) < j) [''0'', ''10'', ''abc'', []]"
    by code_simp
  have good: "py_int '' 2 '' = Some 2"
    by code_simp
  have lo: "(1::int) \<le> 2" by simp
  have hi: "2 \<le> int (length operations)" by (simp add: operations_def)
  have sel: "operations ! (nat 2 - 1) = ''insert''"
    by (simp add: operations_def)
  from get_user_selection_spec [OF bad good lo hi,
      where prompt = "''Choose an SQL operation to perform:''" and w = ?w and rest = "[''users'']"]
  have "get_user_selection operations ''Choose an SQL operation to perform:''
        (?w\<lparr>stdin := [''0'', ''10'', ''abc'', [], '' 2 '', ''users'']\<rparr>) =
     (Inr (operations ! (nat 2 - 1)),
      ?w\<lparr>stdin := [''users''],
        stdout := stdout ?w @ [''Choose an SQL operation to perform:'' @ [CHR 0x0A]] @
          option_lines 1 operations @
          concat (map (\<lambda>l. [choice_prompt operations,
                    case py_int l of None \<Rightarrow> ''Invalid input, please enter a number.'' @ [CHR 0x0A]
                    | Some j \<Rightarrow> ''Please enter a number between 1 and '' @
                        str_nat (length operations) @ ''.'' @ [CHR 0x0A]]) [''0'', ''10'', ''abc'', []]) @
          [choice_prompt operations]\<rparr>)"
    by simp
  then have "fst (get_user_selection operations ''Choose an SQL operation to perform:''
        (?w\<lparr>stdin := [''0'', ''10'', ''abc'', [], '' 2 '', ''users'']\<rparr>)) = Inr ''insert''
     \<and> stdin (snd (get_user_selection operations ''Choose an SQL operation to perform:''
        (?w\<lparr>stdin := [''0'', ''10'', ''abc'', [], '' 2 '', ''users'']\<rparr>))) = [''users'']"
    by (simp only: fst_conv snd_conv sel) simp
  with bad good show ?thesis
    by simp
qed

subsection \<open>The output file\<close>

lemma rfind_absent: "c \<notin> set p \<Longrightarrow> rfind p c = - 1"
  by (simp add: rfind_def)

lemma rfind_append_absent:
  "c \<notin> set s \<Longrightarrow> rfind (p @ c # s) c = int (length p)"
proof -
  assume a: "c \<notin> set s"
  then have "takeWhile (\<lambda>x. x \<noteq> c) (rev s @ c # rev p) = rev s"
    by (subst takeWhile_append2) auto
  then show ?thesis
    by (simp add: rfind_def)
qed

lemma basename_no_sep: "CHR ''/'' \<notin> set (basename p)"
proof (cases "CHR ''/'' \<in> set p")
  case False
  then show ?thesis by (simp add: basename_def rfind_absent)
next
  case True
  then obtain a b where p: "p = a @ CHR ''/'' # b" and b: "CHR ''/'' \<notin> set b"
    by (auto dest: split_list_last)
  from b have "rfind p CHR ''/'' = int (length a)"
    unfolding p by (rule rfind_append_absent)
  moreover have "nat (int (length a) + 1) = Suc (length a)"
    by simp
  ultimately have "basename p = b"
    by (simp add: basename_def p)
  with b show ?thesis by simp
qed

lemma splitext_fst_subset: "set (fst (splitext s)) \<subseteq> set s"
  by (auto simp: splitext_def Let_def dest: in_set_takeD)

lemma output_file_name_no_sep: "CHR ''/'' \<notin> set (get_output_file_name p)"
  using splitext_fst_subset [of "basename p"] basename_no_sep [of p]
  by (auto simp: get_output_file_name_def)

lemma path_join_storage:
  "CHR ''/'' \<notin> set name \<Longrightarrow> path_join ''./storage'' name = ''./storage/'' @ name"
  by (cases name) (auto simp: path_join_def)

lemma dirname_storage:
  assumes "CHR ''/'' \<notin> set name"
  shows "dirname (''./storage/'' @ name) = ''./storage''"
proof -
  from assms have "rfind (''./storage'' @ CHR ''/'' # name) CHR ''/'' = int (length ''./storage'')"
    by (rule rfind_append_absent)
  then have "rfind (''./storage/'' @ name) CHR ''/'' = 9"
    by simp
  then show ?thesis
    by (simp add: dirname_def)
qed

lemma write_queries_to_file_ok:
  assumes nofile: "''./storage'' \<notin> dom (files (fsys w))"
      and nodir: "''./storage/'' @ name \<notin> dirs (fsys w)"
      and noslash: "CHR ''/'' \<notin> set name"
  shows "write_queries_to_file q name w =
     (Inr (), w\<lparr>fsys := (fsys w)\<lparr>dirs := insert ''./storage'' (dirs (fsys w)),
                        files := (files (fsys w))(''./storage/'' @ name \<mapsto> q @ nl @ nl)\<rparr>,
               stdout := stdout w @ [''SQL queries have been written to ./storage/'' @ name @ nl]\<rparr>)"
proof -
  have neq: "''./storage/'' @ name \<noteq> ''./storage''"
    by simp
  show ?thesis
  proof (cases "path_exists (fsys w) ''./storage''")
    case True
    with nofile have d: "''./storage'' \<in> dirs (fsys w)"
      by (auto simp: path_exists_def)
    then have ins: "insert ''./storage'' (dirs (fsys w)) = dirs (fsys w)"
      by auto
    have "open_write (''./storage/'' @ name) (q @ nl @ nl) (fsys w) =
        Inr ((fsys w)\<lparr>files := (files (fsys w))(''./storage/'' @ name \<mapsto> q @ nl @ nl)\<rparr>)"
      unfolding open_write_def Let_def dirname_storage [OF noslash]
      using nofile nodir d by simp
    with True show ?thesis
      by (simp add: write_queries_to_file_def path_join_storage [OF noslash] bind_io_def
          return_io_def lift_os_def py_print_def ins Let_def)
  next
    case False
    then have mk: "makedirs ''./storage'' (fsys w) =
        Inr ((fsys w)\<lparr>dirs := insert ''./storage'' (dirs (fsys w))\<rparr>)"
      by (simp add: makedirs_def)
    have "open_write (''./storage/'' @ name) (q @ nl @ nl)
            ((fsys w)\<lparr>dirs := insert ''./storage'' (dirs (fsys w))\<rparr>) =
        Inr ((fsys w)\<lparr>dirs := insert ''./storage'' (dirs (fsys w)),
                      files := (files (fsys w))(''./storage/'' @ name \<mapsto> q @ nl @ nl)\<rparr>)"
      unfolding open_write_def Let_def dirname_storage [OF noslash]
      using nofile nodir neq by simp
    with False mk show ?thesis
      by (simp add: write_queries_to_file_def path_join_storage [OF noslash] bind_io_def
          return_io_def lift_os_def py_print_def Let_def)
  qed
qed

text \<open>
  C9. The default file name is the base name of the input path, its extension
  stripped, with \<open>.sql\<close> appended; it holds no separator, so the file is written at
  \<open>./storage/\<close> followed by that name. Provided \<open>./storage\<close> is not a regular file and
  the target is not a directory, the writer succeeds whether or not the directory exists:
  afterwards the directory exists and the file holds the statement text followed by two
  newlines. A second call right after the first succeeds as well and replaces the
  content.
\<close>

theorem output_file_spec:
  assumes "''./storage'' \<notin> dom (files (fsys w))"
      and "''./storage/'' @ get_output_file_name p \<notin> dirs (fsys w)"
  shows "get_output_file_name p = fst (splitext (basename p)) @ ''.sql''
     \<and> path_join ''./storage'' (get_output_file_name p) = ''./storage/'' @ get_output_file_name p
     \<and> write_queries_to_file q (get_output_file_name p) w =
         (Inr (), w\<lparr>fsys := (fsys w)\<lparr>dirs := insert ''./storage'' (dirs (fsys w)),
                        files := (files (fsys w))
                          (''./storage/'' @ get_output_file_name p \<mapsto> q @ [CHR 0x0A, CHR 0x0A])\<rparr>,
               stdout := stdout w @
                 [''SQL queries have been written to ./storage/'' @ get_output_file_name p @
                  [CHR 0x0A]]\<rparr>)
     \<and> fst (bind_io (write_queries_to_file q (get_output_file_name p))
              (\<lambda>_. write_queries_to_file q' (get_output_file_name p)) w) = Inr ()
     \<and> files (fsys (snd (bind_io (write_queries_to_file q (get_output_file_name p))
              (\<lambda>_. write_queries_to_file q' (get_output_file_name p)) w)))
           (''./storage/'' @ get_output_file_name p) = Some (q' @ [CHR 0x0A, CHR 0x0A])
     \<and> get_output_file_name ''/home/user/data.csv'' = ''data.sql''"
proof -
  let ?name = "get_output_file_name p"
  let ?w1 = "w\<lparr>fsys := (fsys w)\<lparr>dirs := insert ''./storage'' (dirs (fsys w)),
                        files := (files (fsys w))(''./storage/'' @ ?name \<mapsto> q @ nl @ nl)\<rparr>,
               stdout := stdout w @ [''SQL queries have been written to ./storage/'' @ ?name @ nl]\<rparr>"
  have name: "CHR ''/'' \<notin> set ?name"
    by (rule output_file_name_no_sep)
  have first: "write_queries_to_file q ?name w = (Inr (), ?w1)"
    using assms name by (rule write_queries_to_file_ok)
  have "''./storage'' \<notin> dom (files (fsys ?w1))" "''./storage/'' @ ?name \<notin> dirs (fsys ?w1)"
    using assms by auto
  then have second: "write_queries_to_file q' ?name ?w1 =
     (Inr (), ?w1\<lparr>fsys := (fsys ?w1)\<lparr>dirs := insert ''./storage'' (dirs (fsys ?w1)),
                        files := (files (fsys ?w1))(''./storage/'' @ ?name \<mapsto> q' @ nl @ nl)\<rparr>,
               stdout := stdout ?w1 @ [''SQL queries have been written to ./storage/'' @ ?name @ nl]\<rparr>)"
    using name by (rule write_queries_to_file_ok)
  have twice: "bind_io (write_queries_to_file q ?name) (\<lambda>_. write_queries_to_file q' ?name) w =
      write_queries_to_file q' ?name ?w1"
    using first by (rule bind_io_Inr)
  have ex: "get_output_file_name ''/home/user/data.csv'' = ''data.sql''"
    by code_simp
  show ?thesis
    unfolding twice second
    using first by (simp add: path_join_storage [OF name] nl_def ex) (simp add: get_output_file_name_def)
qed

theorem output_file_spec_witness:
  "''./storage'' \<notin> dom (files (fsys
      \<lparr>stdin = [], stdout = [], fsys = \<lparr>dirs = {}, files = Map.empty\<rparr>, files_read = []\<rparr>))
   \<and> ''./storage/'' @ get_output_file_name ''/home/user/data.csv'' \<notin> dirs (fsys
      \<lparr>stdin = [], stdout = [], fsys = \<lparr>dirs = {}, files = Map.empty\<rparr>, files_read = []\<rparr>)
   \<and> write_queries_to_file ''DELETE FROM t;'' (get_output_file_name ''/home/user/data.csv'')
        \<lparr>stdin = [], stdout = [], fsys = \<lparr>dirs = {}, files = Map.empty\<rparr>, files_read = []\<rparr> =
      (Inr (),
       \<lparr>stdin = [],
        stdout = [''SQL queries have been written to ./storage/data.sql'' @ [CHR 0x0A]],
        fsys = \<lparr>dirs = {''./storage''},
                 files = [''./storage/data.sql'' \<mapsto> ''DELETE FROM t;'' @ [CHR 0x0A, CHR 0x0A]]\<rparr>,
        files_read = []\<rparr>)"
proof -
  let ?w = "\<lparr>stdin = [], stdout = [], fsys = \<lparr>dirs = {}, files = Map.empty\<rparr>, files_read = []\<rparr>"
  have a: "''./storage'' \<notin> dom (files (fsys ?w))"
    by simp
  have b: "''./storage/'' @ get_output_file_name ''/home/user/data.csv'' \<notin> dirs (fsys ?w)"
    by simp
  have n: "get_output_file_name ''/home/user/data.csv'' = ''data.sql''"
    by code_simp
  from output_file_spec [OF a b, where q = "''DELETE FROM t;''"]
  have "write_queries_to_file ''DELETE FROM t;'' (get_output_file_name ''/home/user/data.csv'') ?w =
         (Inr (), ?w\<lparr>fsys := (fsys ?w)\<lparr>dirs := insert ''./storage'' (dirs (fsys ?w)),
                        files := (files (fsys ?w))
                          (''./storage/'' @ get_output_file_name ''/home/user/data.csv'' \<mapsto>
                             ''DELETE FROM t;'' @ [CHR 0x0A, CHR 0x0A])\<rparr>,
               stdout := stdout ?w @
                 [''SQL queries have been written to ./storage/'' @
                  get_output_file_name ''/home/user/data.csv'' @ [CHR 0x0A]]\<rparr>)"
    by blast
  then show ?thesis
    using a b by (simp add: n)
qed

subsection \<open>CREATE TABLE\<close>

lemma column_loop_complete:
  assumes "list_all (\<lambda>c. lower (fst c) \<noteq> ''done'') cols" and "lower fin = ''done''"
  shows "column_loop d (column_lines cols @ fin # rest) out =
     (Inr (collect_columns d cols), rest, out @ column_prompts cols @ [name_prompt])"
  using assms(1)
proof (induction cols arbitrary: d out)
  case Nil
  with assms(2) show ?case
    by (simp add: column_lines_def column_prompts_def collect_columns_def)
next
  case (Cons c cols)
  obtain n ty dflt k where c: "c = (n, ty, dflt, k)"
    by (cases c) auto
  from Cons.prems c have n: "lower n \<noteq> ''done''" and cols: "list_all (\<lambda>c. lower (fst c) \<noteq> ''done'') cols"
    by simp_all
  have "column_loop d (column_lines (c # cols) @ fin # rest) out =
        column_loop (dict_set d n (column_spec ty k dflt)) (column_lines cols @ fin # rest)
          (out @ [name_prompt, type_prompt n, default_prompt n, key_prompt n])"
    using n by (simp add: c column_lines_def)
  also have "\<dots> = (Inr (collect_columns (dict_set d n (column_spec ty k dflt)) cols), rest,
      (out @ [name_prompt, type_prompt n, default_prompt n, key_prompt n]) @
        column_prompts cols @ [name_prompt])"
    by (rule Cons.IH [OF cols])
  finally show ?case
    by (simp add: c column_prompts_def collect_columns_def column_spec_def)
qed

lemma create_table_branch_complete:
  assumes "list_all (\<lambda>c. lower (fst c) \<noteq> ''done'') cols" and "lower fin = ''done''"
  shows "create_table_branch t (w\<lparr>stdin := column_lines cols @ fin # rest\<rparr>) =
     (Inr (), w\<lparr>stdin := rest,
        stdout := stdout w @ column_prompts cols @
          [name_prompt,
           ''Generated SQL Query:'' @ nl @ ''CREATE TABLE '' @ t @ '' ('' @
             repr_dict (collect_columns [] cols) @ '');'' @ nl]\<rparr>)"
proof -
  have "read_columns (w\<lparr>stdin := column_lines cols @ fin # rest\<rparr>) =
      (Inr (collect_columns [] cols),
       w\<lparr>stdin := rest, stdout := stdout w @ column_prompts cols @ [name_prompt]\<rparr>)"
    by (simp add: read_columns_def column_loop_complete [OF assms])
  then show ?thesis
    unfolding create_table_branch_def
    by (simp add: bind_io_Inr print_query_def py_print_def)
qed

text \<open>
  C10. In the CREATE TABLE branch, after any number of complete column entries and a
  line that reads \<open>done\<close> in any case, the statement printed holds \<open>repr\<close> of the
  dictionary of columns between the parentheses, braces, quoted names and colons
  included: \<open>CREATE TABLE t ({'id': 'INT PRIMARY KEY '});\<close> for the one column \<open>id\<close>,
  and \<open>CREATE TABLE\<close>, the table and \<open>({});\<close> when no column is entered.
\<close>

theorem create_table_repr:
  assumes "list_all (\<lambda>c. lower (fst c) \<noteq> ''done'') cols" and "lower fin = ''done''"
  shows "run_operation e ''create_table'' t
           (w\<lparr>stdin := concat (map (\<lambda>(n, ty, dflt, k). [n, ty, dflt, k]) cols) @ fin # rest\<rparr>) =
     (Inr (), w\<lparr>stdin := rest,
        stdout := stdout w @ column_prompts cols @
          [name_prompt,
           ''Generated SQL Query:'' @ [CHR 0x0A] @ ''CREATE TABLE '' @ t @ '' ('' @
             repr_dict (foldl (\<lambda>d (n, ty, dflt, k).
                dict_set d n (ty @ '' '' @ k @ '' '' @ (if dflt = [] then [] else ''DEFAULT '' @ dflt)))
                [] cols) @ '');'' @ [CHR 0x0A]]\<rparr>)
   \<and> run_operation e ''create_table'' ''t''
        (w\<lparr>stdin := [''id'', ''INT'', [], ''PRIMARY KEY'', ''done'']\<rparr>) =
     (Inr (), w\<lparr>stdin := [],
        stdout := stdout w @
          [name_prompt, type_prompt ''id'', default_prompt ''id'', key_prompt ''id'', name_prompt,
           ''Generated SQL Query:'' @ [CHR 0x0A] @
           ''CREATE TABLE t ({'id': 'INT PRIMARY KEY '});'' @ [CHR 0x0A]]\<rparr>)
   \<and> run_operation e ''create_table'' t (w\<lparr>stdin := fin # rest\<rparr>) =
     (Inr (), w\<lparr>stdin := rest,
        stdout := stdout w @
          [name_prompt,
           ''Generated SQL Query:'' @ [CHR 0x0A] @ ''CREATE TABLE '' @ t @ '' ({});'' @ [CHR 0x0A]]\<rparr>)"
proof (intro conjI)
  have op: "run_operation e ''create_table'' t' = create_table_branch t'" for t'
    by (simp add: run_operation_def)
  show "run_operation e ''create_table'' t
           (w\<lparr>stdin := concat (map (\<lambda>(n, ty, dflt, k). [n, ty, dflt, k]) cols) @ fin # rest\<rparr>) =
     (Inr (), w\<lparr>stdin := rest,
        stdout := stdout w @ column_prompts cols @
          [name_prompt,
           ''Generated SQL Query:'' @ [CHR 0x0A] @ ''CREATE TABLE '' @ t @ '' ('' @
             repr_dict (foldl (\<lambda>d (n, ty, dflt, k).
                dict_set d n (ty @ '' '' @ k @ '' '' @ (if dflt = [] then [] else ''DEFAULT '' @ dflt)))
                [] cols) @ '');'' @ [CHR 0x0A]]\<rparr>)"
    using create_table_branch_complete [OF assms, where t = t and w = w and rest = rest]
    by (simp add: op column_lines_def collect_columns_def nl_def)
  have fin_done: "lower ''done'' = ''done''"
    by code_simp
  have one: "list_all (\<lambda>c. lower (fst c) \<noteq> ''done'') [(''id'', ''INT'', [], ''PRIMARY KEY'')]"
    by code_simp
  have r: "repr_dict (collect_columns [] [(''id'', ''INT'', [], ''PRIMARY KEY'')]) =
      ''{'id': 'INT PRIMARY KEY '}''"
    by code_simp
  show "run_operation e ''create_table'' ''t''
        (w\<lparr>stdin := [''id'', ''INT'', [], ''PRIMARY KEY'', ''done'']\<rparr>) =
     (Inr (), w\<lparr>stdin := [],
        stdout := stdout w @
          [name_prompt, type_prompt ''id'', default_prompt ''id'', key_prompt ''id'', name_prompt,
           ''Generated SQL Query:'' @ [CHR 0x0A] @
           ''CREATE TABLE t ({'id': 'INT PRIMARY KEY '});'' @ [CHR 0x0A]]\<rparr>)"
    using create_table_branch_complete [OF one fin_done, where t = "''t''" and w = w and rest = "[]"]
    unfolding r
    by (simp add: op column_lines_def column_prompts_def nl_def)
  have none: "list_all (\<lambda>c. lower (fst c) \<noteq> ''done'') []"
    by simp
  show "run_operation e ''create_table'' t (w\<lparr>stdin := fin # rest\<rparr>) =
     (Inr (), w\<lparr>stdin := rest,
        stdout := stdout w @
          [name_prompt,
           ''Generated SQL Query:'' @ [CHR 0x0A] @ ''CREATE TABLE '' @ t @ '' ({});'' @ [CHR 0x0A]]\<rparr>)"
    using create_table_branch_complete [OF none assms(2), where t = t and w = w and rest = rest]
    by (simp add: op column_lines_def column_prompts_def collect_columns_def repr_dict_def nl_def)
qed

theorem create_table_repr_witness:
  "list_all (\<lambda>c. lower (fst c) \<noteq> ''done'')
     [(''id'', ''INT'', [], ''PRIMARY KEY''), (''name'', ''TEXT'', ''0'', []), (''id'', ''BIGINT'', [], [])]
   \<and> lower ''Done'' = ''done''
   \<and> fst (run_operation
        \<lparr>realpath = (\<lambda>p. p), read_csv = (\<lambda>p f. Inr \<lparr>columns = [], rows = []\<rparr>),
         read_excel = (\<lambda>p f. Inr \<lparr>columns = [], rows = []\<rparr>)\<rparr> ''create_table'' ''t''
        \<lparr>stdin = [''id'', ''INT'', [], ''PRIMARY KEY'', ''name'', ''TEXT'', ''0'', [],
                  ''id'', ''BIGINT'', [], [], ''Done''],
         stdout = [], fsys = \<lparr>dirs = {}, files = Map.empty\<rparr>, files_read = []\<rparr>) = Inr ()
   \<and> last (stdout (snd (run_operation
        \<lparr>realpath = (\<lambda>p. p), read_csv = (\<lambda>p f. Inr \<lparr>columns = [], rows = []\<rparr>),
         read_excel = (\<lambda>p f. Inr \<lparr>columns = [], rows = []\<rparr>)\<rparr> ''create_table'' ''t''
        \<lparr>stdin = [''id'', ''INT'', [], ''PRIMARY KEY'', ''name'', ''TEXT'', ''0'', [],
                  ''id'', ''BIGINT'', [], [], ''Done''],
         stdout = [], fsys = \<lparr>dirs = {}, files = Map.empty\<rparr>, files_read = []\<rparr>))) =
      ''Generated SQL Query:'' @ [CHR 0x0A] @
      ''CREATE TABLE t ({'id': 'BIGINT  ', 'name': 'TEXT  DEFAULT 0'});'' @ [CHR 0x0A]"
proof -
  let ?e = "\<lparr>realpath = (\<lambda>p. p), read_csv = (\<lambda>p f. Inr \<lparr>columns = [], rows = []\<rparr>),
         read_excel = (\<lambda>p f. Inr \<lparr>columns = [], rows = []\<rparr>)\<rparr>"
  let ?w = "\<lparr>stdin = [], stdout = [], fsys = \<lparr>dirs = {}, files = Map.empty\<rparr>, files_read = []\<rparr>"
  let ?cols = "[(''id'', ''INT'', [], ''PRIMARY KEY''), (''name'', ''TEXT'', ''0'', []),
                (''id'', ''BIGINT'', [], [])]"
  have h1: "list_all (\<lambda>c. lower (fst c) \<noteq> ''done'') ?cols"
    by code_simp
  have h2: "lower ''Done'' = ''done''"
    by code_simp
  have r: "repr_dict (foldl (\<lambda>d (n, ty, dflt, k).
                dict_set d n (ty @ '' '' @ k @ '' '' @ (if dflt = [] then [] else ''DEFAULT '' @ dflt)))
                [] ?cols) = ''{'id': 'BIGINT  ', 'name': 'TEXT  DEFAULT 0'}''"
    by code_simp
  from create_table_repr [OF h1 h2, where e = ?e and t = "''t''" and w = ?w and rest = "[]"]
  have "run_operation ?e ''create_table'' ''t''
           (?w\<lparr>stdin := concat (map (\<lambda>(n, ty, dflt, k). [n, ty, dflt, k]) ?cols) @ ''Done'' # []\<rparr>) =
     (Inr (), ?w\<lparr>stdin := [],
        stdout := stdout ?w @ column_prompts ?cols @
          [name_prompt,
           ''Generated SQL Query:'' @ [CHR 0x0A] @ ''CREATE TABLE '' @ ''t'' @ '' ('' @
             repr_dict (foldl (\<lambda>d (n, ty, dflt, k).
                dict_set d n (ty @ '' '' @ k @ '' '' @ (if dflt = [] then [] else ''DEFAULT '' @ dflt)))
                [] ?cols) @ '');'' @ [CHR 0x0A]]\<rparr>)"
    by blast
  then have "run_operation ?e ''create_table'' ''t''
        (?w\<lparr>stdin := [''id'', ''INT'', [], ''PRIMARY KEY'', ''name'', ''TEXT'', ''0'', [],
                  ''id'', ''BIGINT'', [], [], ''Done'']\<rparr>) =
     (Inr (), ?w\<lparr>stdin := [],
        stdout := stdout ?w @ column_prompts ?cols @
          [name_prompt,
           ''Generated SQL Query:'' @ [CHR 0x0A] @ ''CREATE TABLE '' @ ''t'' @ '' ('' @
             ''{'id': 'BIGINT  ', 'name': 'TEXT  DEFAULT 0'}'' @ '');'' @ [CHR 0x0A]]\<rparr>)"
    unfolding r by simp
  then show ?thesis
    using h1 h2 by simp
qed

subsection \<open>Free-form operations\<close>

lemma starts_with_iff: "starts_with frag s \<longleftrightarrow> (\<exists>post. s = frag @ post)"
  by (induction frag s rule: starts_with.induct) auto

lemma contains_iff: "contains frag s \<longleftrightarrow> (\<exists>pre post. s = pre @ frag @ post)"
proof (induction s)
  case Nil
  then show ?case by auto
next
  case (Cons c cs)
  show ?case
  proof
    assume "contains frag (c # cs)"
    then consider "starts_with frag (c # cs)" | "contains frag cs" by auto
    then show "\<exists>pre post. c # cs = pre @ frag @ post"
    proof cases
      case 1
      then obtain post where "c # cs = frag @ post" by (auto simp: starts_with_iff)
      then have "c # cs = [] @ frag @ post" by simp
      then show ?thesis by blast
    next
      case 2
      with Cons.IH obtain pre post where "cs = pre @ frag @ post" by auto
      then have "c # cs = (c # pre) @ frag @ post" by simp
      then show ?thesis by blast
    qed
  next
    assume "\<exists>pre post. c # cs = pre @ frag @ post"
    then obtain pre post where e: "c # cs = pre @ frag @ post" by auto
    show "contains frag (c # cs)"
    proof (cases pre)
      case Nil
      with e have "starts_with frag (c # cs)" by (auto simp: starts_with_iff)
      then show ?thesis by simp
    next
      case (Cons a pre')
      with e have "cs = pre' @ frag @ post" by simp
      with Cons.IH have "contains frag cs" by auto
      then show ?thesis by simp
    qed
  qed
qed

lemma str_split_not_empty: "str_split sep s \<noteq> []"
  by (induction s) (auto split: list.splits)

lemma join_split_commas:
  "join '', '' (str_split CHR '','' s) = concat (map (\<lambda>c. if c = CHR '','' then '', '' else [c]) s)"
proof (induction s)
  case Nil
  then show ?case by simp
next
  case (Cons c s)
  obtain piece pieces where sp: "str_split CHR '','' s = piece # pieces"
    using str_split_not_empty [of "CHR '',''" s] by (cases "str_split CHR '','' s") auto
  with Cons show ?case
    by (cases pieces) auto
qed

text \<open>
  The column list \<open>a,b\<close> of a SELECT does not reach the statement as it was typed: the
  statement printed reads \<open>SELECT a, b FROM\<close>, and the text \<open>a,b\<close> occurs nowhere in it.
\<close>

theorem select_columns_rewritten:
  "last (stdout (snd (select_branch ''t''
      \<lparr>stdin = [''a,b'', ''5'', ''0'', ''x = 1''], stdout = [],
       fsys = \<lparr>dirs = {}, files = Map.empty\<rparr>, files_read = []\<rparr>))) =
     ''Generated SQL Query:'' @ [CHR 0x0A] @
     ''SELECT a, b FROM t WHERE x = 1 LIMIT 5 OFFSET 0;'' @ [CHR 0x0A]
   \<and> \<not> contains ''a,b'' (last (stdout (snd (select_branch ''t''
      \<lparr>stdin = [''a,b'', ''5'', ''0'', ''x = 1''], stdout = [],
       fsys = \<lparr>dirs = {}, files = Map.empty\<rparr>, files_read = []\<rparr>))))"
proof -
  let ?w = "\<lparr>stdin = [], stdout = [], fsys = \<lparr>dirs = {}, files = Map.empty\<rparr>, files_read = []\<rparr>"
  have s: "strip ''a,b'' = ''a,b''" "strip ''5'' = ''5''" "strip ''0'' = ''0''" "strip ''x = 1'' = ''x = 1''"
    by code_simp+
  have "last (stdout (snd (select_branch ''t'' (?w\<lparr>stdin := [''a,b'', ''5'', ''0'', ''x = 1'']\<rparr>)))) =
     ''Generated SQL Query:'' @ [CHR 0x0A] @
     ''SELECT a, b FROM t WHERE x = 1 LIMIT 5 OFFSET 0;'' @ [CHR 0x0A]"
    unfolding select_branch_lines by (simp add: s nl_def)
  then have l: "last (stdout (snd (select_branch ''t''
      \<lparr>stdin = [''a,b'', ''5'', ''0'', ''x = 1''], stdout = [],
       fsys = \<lparr>dirs = {}, files = Map.empty\<rparr>, files_read = []\<rparr>))) =
     ''Generated SQL Query:'' @ [CHR 0x0A] @
     ''SELECT a, b FROM t WHERE x = 1 LIMIT 5 OFFSET 0;'' @ [CHR 0x0A]"
    by simp
  have "\<not> contains ''a,b'' (''Generated SQL Query:'' @ [CHR 0x0A] @
     ''SELECT a, b FROM t WHERE x = 1 LIMIT 5 OFFSET 0;'' @ [CHR 0x0A])"
    by code_simp
  with l show ?thesis by simp
qed

lemma name_loop_blank_lines:
  "list_all (\<lambda>l. strip l = []) blanks \<Longrightarrow>
   name_loop prompt complaint (blanks @ ins) out =
     name_loop prompt complaint ins (out @ concat (map (\<lambda>l. [prompt, complaint @ nl]) blanks))"
  by (induction blanks arbitrary: out) simp_all

lemma read_name_accepts:
  assumes "list_all (\<lambda>l. strip l = []) blanks" and "strip l \<noteq> []"
  shows "read_name prompt complaint (w\<lparr>stdin := blanks @ l # rest\<rparr>) =
     (Inr (strip l),
      w\<lparr>stdin := rest,
        stdout := stdout w @ concat (map (\<lambda>l. [prompt, complaint @ nl]) blanks) @ [prompt]\<rparr>)"
  using assms by (simp add: read_name_def name_loop_blank_lines)

lemma delete_branch_lines:
  "delete_branch t (w\<lparr>stdin := c # rest\<rparr>) =
     (Inr (), w\<lparr>stdin := rest,
        stdout := stdout w @
          [''Enter the condition for DELETE (e.g., id=10): '',
           ''Generated SQL Query:'' @ nl @ ''DELETE FROM '' @ t @ '' WHERE '' @ c @ '';'' @ nl]\<rparr>)"
  by (simp add: delete_branch_def bind_py_input_cons print_query_def py_print_def)

lemma drop_table_branch_lines:
  "drop_table_branch t w =
     (Inr (), w\<lparr>stdout := stdout w @
          [''Generated SQL Query:'' @ nl @ ''DROP TABLE IF EXISTS '' @ t @ '';'' @ nl]\<rparr>)"
  by (simp add: drop_table_branch_def print_query_def py_print_def)

lemma alter_table_branch_lines:
  "alter_table_branch t (w\<lparr>stdin := a # rest\<rparr>) =
     (Inr (), w\<lparr>stdin := rest,
        stdout := stdout w @
          [''Enter the ALTER TABLE statement (e.g., ADD COLUMN age INT): '',
           ''Generated SQL Query:'' @ nl @ ''ALTER TABLE '' @ t @ '' '' @ a @ '';'' @ nl]\<rparr>)"
  by (simp add: alter_table_branch_def bind_py_input_cons print_query_def py_print_def)

lemma create_view_branch_lines:
  assumes "list_all (\<lambda>l. strip l = []) blanks" and "strip v \<noteq> []"
  shows "create_view_branch (w\<lparr>stdin := blanks @ v # s # rest\<rparr>) =
     (Inr (), w\<lparr>stdin := rest,
        stdout := stdout w @
          concat (map (\<lambda>l. [''Enter the view name: '',
            ''View name cannot be empty. Please enter a valid view name.'' @ nl]) blanks) @
          [''Enter the view name: '',
           ''Enter the SELECT statement (e.g., SELECT id, name FROM users): '',
           ''Generated SQL Query:'' @ nl @ ''CREATE VIEW '' @ strip v @ '' AS '' @ s @ '';'' @ nl]\<rparr>)"
proof -
  have "read_view_name (w\<lparr>stdin := blanks @ v # s # rest\<rparr>) =
      (Inr (strip v),
       w\<lparr>stdin := s # rest,
         stdout := stdout w @
           concat (map (\<lambda>l. [''Enter the view name: '',
             ''View name cannot be empty. Please enter a valid view name.'' @ nl]) blanks) @
           [''Enter the view name: '']\<rparr>)"
    unfolding read_view_name_def using assms by (rule read_name_accepts)
  then show ?thesis
    unfolding create_view_branch_def
    by (simp add: bind_io_Inr bind_py_input_cons' print_query_def py_print_def)
qed

lemma drop_view_branch_lines:
  assumes "list_all (\<lambda>l. strip l = []) blanks" and "strip v \<noteq> []"
  shows "drop_view_branch (w\<lparr>stdin := blanks @ v # rest\<rparr>) =
     (Inr (), w\<lparr>stdin := rest,
        stdout := stdout w @
          concat (map (\<lambda>l. [''Enter the view name: '',
            ''View name cannot be empty. Please enter a valid view name.'' @ nl]) blanks) @
          [''Enter the view name: '',
           ''Generated SQL Query:'' @ nl @ ''DROP VIEW IF EXISTS '' @ strip v @ '';'' @ nl]\<rparr>)"
proof -
  have "read_view_name (w\<lparr>stdin := blanks @ v # rest\<rparr>) =
      (Inr (strip v),
       w\<lparr>stdin := rest,
         stdout := stdout w @
           concat (map (\<lambda>l. [''Enter the view name: '',
             ''View name cannot be empty. Please enter a valid view name.'' @ nl]) blanks) @
           [''Enter the view name: '']\<rparr>)"
    unfolding read_view_name_def using assms by (rule read_name_accepts)
  then show ?thesis
    unfolding drop_view_branch_def
    by (simp add: bind_io_Inr print_query_def py_print_def)
qed

text \<open>
  C5, as the code has it. Every statement is its fixed template around the fragments
  the claim lists, none of which is escaped or checked for structure. The DELETE
  condition, the ALTER clause and the SELECT statement of a view are inserted exactly as
  typed. The table name and the view name are asked again, after a complaint, for every
  line that is blank, and the first line that is not blank is inserted with the
  whitespace around it removed. The column list, condition, limit and offset of a SELECT
  are inserted with the whitespace around them removed, a blank limit or offset replaced
  by \<open>10\<close> or \<open>0\<close>; and in the column list of a SELECT every comma is replaced by a comma
  and a space. Of the CREATE TABLE statement only the place of the table name is stated:
  what stands between its parentheses is left open here.
\<close>

theorem free_form_fragments:
  assumes "list_all (\<lambda>l. strip l = []) blanks" and "strip name \<noteq> []"
      and "list_all (\<lambda>c. lower (fst c) \<noteq> ''done'') cols" and "lower fin = ''done''"
  shows "read_table_name (w\<lparr>stdin := blanks @ name # rest\<rparr>) =
       (Inr (strip name),
        w\<lparr>stdin := rest,
          stdout := stdout w @
            concat (map (\<lambda>l. [''Enter the table name: '',
              ''Table name cannot be empty. Please enter a valid table name.'' @ [CHR 0x0A]]) blanks) @
            [''Enter the table name: '']\<rparr>)
   \<and> run_operation e ''select'' t (w\<lparr>stdin := l1 # l2 # l3 # l4 # rest\<rparr>) =
       (Inr (), w\<lparr>stdin := rest,
          stdout := stdout w @
            [''Enter the columns to select (comma-separated, or * for all): '',
             ''Enter the limit (default is 10): '',
             ''Enter the offset (default is 0): '',
             ''Enter any conditions (or leave blank): '',
             ''Generated SQL Query:'' @ [CHR 0x0A] @
             ''SELECT '' @ concat (map (\<lambda>c. if c = CHR '','' then '', '' else [c]) (strip l1)) @
             '' FROM '' @ t @ '' WHERE '' @ strip l4 @
             '' LIMIT '' @ (if strip l2 = [] then ''10'' else strip l2) @
             '' OFFSET '' @ (if strip l3 = [] then ''0'' else strip l3) @ '';'' @ [CHR 0x0A]]\<rparr>)
   \<and> run_operation e ''delete'' t (w\<lparr>stdin := c # rest\<rparr>) =
       (Inr (), w\<lparr>stdin := rest,
          stdout := stdout w @
            [''Enter the condition for DELETE (e.g., id=10): '',
             ''Generated SQL Query:'' @ [CHR 0x0A] @
             ''DELETE FROM '' @ t @ '' WHERE '' @ c @ '';'' @ [CHR 0x0A]]\<rparr>)
   \<and> (\<exists>body. run_operation e ''create_table'' t
         (w\<lparr>stdin := concat (map (\<lambda>(n, ty, dflt, k). [n, ty, dflt, k]) cols) @ fin # rest\<rparr>) =
       (Inr (), w\<lparr>stdin := rest,
          stdout := stdout w @ column_prompts cols @
            [name_prompt,
             ''Generated SQL Query:'' @ [CHR 0x0A] @ ''CREATE TABLE '' @ t @ '' ('' @
             body @ '');'' @ [CHR 0x0A]]\<rparr>))
   \<and> run_operation e ''drop_table'' t w =
       (Inr (), w\<lparr>stdout := stdout w @
            [''Generated SQL Query:'' @ [CHR 0x0A] @
             ''DROP TABLE IF EXISTS '' @ t @ '';'' @ [CHR 0x0A]]\<rparr>)
   \<and> run_operation e ''alter_table'' t (w\<lparr>stdin := a # rest\<rparr>) =
       (Inr (), w\<lparr>stdin := rest,
          stdout := stdout w @
            [''Enter the ALTER TABLE statement (e.g., ADD COLUMN age INT): '',
             ''Generated SQL Query:'' @ [CHR 0x0A] @
             ''ALTER TABLE '' @ t @ '' '' @ a @ '';'' @ [CHR 0x0A]]\<rparr>)
   \<and> run_operation e ''create_view'' t (w\<lparr>stdin := blanks @ name # s # rest\<rparr>) =
       (Inr (), w\<lparr>stdin := rest,
          stdout := stdout w @
            concat (map (\<lambda>l. [''Enter the view name: '',
              ''View name cannot be empty. Please enter a valid view name.'' @ [CHR 0x0A]]) blanks) @
            [''Enter the view name: '',
             ''Enter the SELECT statement (e.g., SELECT id, name FROM users): '',
             ''Generated SQL Query:'' @ [CHR 0x0A] @
             ''CREATE VIEW '' @ strip name @ '' AS '' @ s @ '';'' @ [CHR 0x0A]]\<rparr>)
   \<and> run_operation e ''drop_view'' t (w\<lparr>stdin := blanks @ name # rest\<rparr>) =
       (Inr (), w\<lparr>stdin := rest,
          stdout := stdout w @
            concat (map (\<lambda>l. [''Enter the view name: '',
              ''View name cannot be empty. Please enter a valid view name.'' @ [CHR 0x0A]]) blanks) @
            [''Enter the view name: '',
             ''Generated SQL Query:'' @ [CHR 0x0A] @
             ''DROP VIEW IF EXISTS '' @ strip name @ '';'' @ [CHR 0x0A]]\<rparr>)"
proof (intro conjI)
  have op_view: "run_operation e ''create_view'' t = create_view_branch"
    by (simp add: run_operation_def)
  have op_drop: "run_operation e ''drop_view'' t = drop_view_branch"
    by (simp add: run_operation_def)
  show "read_table_name (w\<lparr>stdin := blanks @ name # rest\<rparr>) =
       (Inr (strip name),
        w\<lparr>stdin := rest,
          stdout := stdout w @
            concat (map (\<lambda>l. [''Enter the table name: '',
              ''Table name cannot be empty. Please enter a valid table name.'' @ [CHR 0x0A]]) blanks) @
            [''Enter the table name: '']\<rparr>)"
    unfolding read_table_name_def
    using assms(1,2) by (rule read_name_accepts [unfolded nl_def])
  show "run_operation e ''select'' t (w\<lparr>stdin := l1 # l2 # l3 # l4 # rest\<rparr>) =
       (Inr (), w\<lparr>stdin := rest,
          stdout := stdout w @
            [''Enter the columns to select (comma-separated, or * for all): '',
             ''Enter the limit (default is 10): '',
             ''Enter the offset (default is 0): '',
             ''Enter any conditions (or leave blank): '',
             ''Generated SQL Query:'' @ [CHR 0x0A] @
             ''SELECT '' @ concat (map (\<lambda>c. if c = CHR '','' then '', '' else [c]) (strip l1)) @
             '' FROM '' @ t @ '' WHERE '' @ strip l4 @
             '' LIMIT '' @ (if strip l2 = [] then ''10'' else strip l2) @
             '' OFFSET '' @ (if strip l3 = [] then ''0'' else strip l3) @ '';'' @ [CHR 0x0A]]\<rparr>)"
    by (simp add: run_operation_def select_branch_lines join_split_commas nl_def)
  show "run_operation e ''delete'' t (w\<lparr>stdin := c # rest\<rparr>) =
       (Inr (), w\<lparr>stdin := rest,
          stdout := stdout w @
            [''Enter the condition for DELETE (e.g., id=10): '',
             ''Generated SQL Query:'' @ [CHR 0x0A] @
             ''DELETE FROM '' @ t @ '' WHERE '' @ c @ '';'' @ [CHR 0x0A]]\<rparr>)"
    by (simp add: run_operation_def delete_branch_lines nl_def)
  show "\<exists>body. run_operation e ''create_table'' t
         (w\<lparr>stdin := concat (map (\<lambda>(n, ty, dflt, k). [n, ty, dflt, k]) cols) @ fin # rest\<rparr>) =
       (Inr (), w\<lparr>stdin := rest,
          stdout := stdout w @ column_prompts cols @
            [name_prompt,
             ''Generated SQL Query:'' @ [CHR 0x0A] @ ''CREATE TABLE '' @ t @ '' ('' @
             body @ '');'' @ [CHR 0x0A]]\<rparr>)"
  proof (rule exI)
    show "run_operation e ''create_table'' t
           (w\<lparr>stdin := concat (map (\<lambda>(n, ty, dflt, k). [n, ty, dflt, k]) cols) @ fin # rest\<rparr>) =
         (Inr (), w\<lparr>stdin := rest,
            stdout := stdout w @ column_prompts cols @
              [name_prompt,
               ''Generated SQL Query:'' @ [CHR 0x0A] @ ''CREATE TABLE '' @ t @ '' ('' @
               repr_dict (collect_columns [] cols) @ '');'' @ [CHR 0x0A]]\<rparr>)"
      using create_table_branch_complete [OF assms(3,4), where t = t and w = w and rest = rest]
      by (simp add: run_operation_def column_lines_def nl_def)
  qed
  show "run_operation e ''drop_table'' t w =
       (Inr (), w\<lparr>stdout := stdout w @
            [''Generated SQL Query:'' @ [CHR 0x0A] @
             ''DROP TABLE IF EXISTS '' @ t @ '';'' @ [CHR 0x0A]]\<rparr>)"
    by (simp add: run_operation_def drop_table_branch_lines nl_def)
  show "run_operation e ''alter_table'' t (w\<lparr>stdin := a # rest\<rparr>) =
       (Inr (), w\<lparr>stdin := rest,
          stdout := stdout w @
            [''Enter the ALTER TABLE statement (e.g., ADD COLUMN age INT): '',
             ''Generated SQL Query:'' @ [CHR 0x0A] @
             ''ALTER TABLE '' @ t @ '' '' @ a @ '';'' @ [CHR 0x0A]]\<rparr>)"
    by (simp add: run_operation_def alter_table_branch_lines nl_def)
  show "run_operation e ''create_view'' t (w\<lparr>stdin := blanks @ name # s # rest\<rparr>) =
       (Inr (), w\<lparr>stdin := rest,
          stdout := stdout w @
            concat (map (\<lambda>l. [''Enter the view name: '',
              ''View name cannot be empty. Please enter a valid view name.'' @ [CHR 0x0A]]) blanks) @
            [''Enter the view name: '',
             ''Enter the SELECT statement (e.g., SELECT id, name FROM users): '',
             ''Generated SQL Query:'' @ [CHR 0x0A] @
             ''CREATE VIEW '' @ strip name @ '' AS '' @ s @ '';'' @ [CHR 0x0A]]\<rparr>)"
    unfolding op_view
    using assms(1,2) by (rule create_view_branch_lines [unfolded nl_def])
  show "run_operation e ''drop_view'' t (w\<lparr>stdin := blanks @ name # rest\<rparr>) =
       (Inr (), w\<lparr>stdin := rest,
          stdout := stdout w @
            concat (map (\<lambda>l. [''Enter the view name: '',
              ''View name cannot be empty. Please enter a valid view name.'' @ [CHR 0x0A]]) blanks) @
            [''Enter the view name: '',
             ''Generated SQL Query:'' @ [CHR 0x0A] @
             ''DROP VIEW IF EXISTS '' @ strip name @ '';'' @ [CHR 0x0A]]\<rparr>)"
    unfolding op_drop
    using assms(1,2) by (rule drop_view_branch_lines [unfolded nl_def])
qed

theorem free_form_fragments_witness:
  "list_all (\<lambda>l. strip l = []) [[], ''  '']
   \<and> strip '' users '' \<noteq> []
   \<and> list_all (\<lambda>c. lower (fst c) \<noteq> ''done'') [(''id'', ''INT'', [], [])]
   \<and> lower ''done'' = ''done''
   \<and> read_table_name
        \<lparr>stdin = [[], ''  '', '' users ''], stdout = [],
         fsys = \<lparr>dirs = {}, files = Map.empty\<rparr>, files_read = []\<rparr> =
      (Inr ''users'',
       \<lparr>stdin = [],
        stdout = [''Enter the table name: '',
                  ''Table name cannot be empty. Please enter a valid table name.'' @ [CHR 0x0A],
                  ''Enter the table name: '',
                  ''Table name cannot be empty. Please enter a valid table name.'' @ [CHR 0x0A],
                  ''Enter the table name: ''],
        fsys = \<lparr>dirs = {}, files = Map.empty\<rparr>, files_read = []\<rparr>)
   \<and> run_operation
        \<lparr>realpath = (\<lambda>p. p), read_csv = (\<lambda>p f. Inr \<lparr>columns = [], rows = []\<rparr>),
         read_excel = (\<lambda>p f. Inr \<lparr>columns = [], rows = []\<rparr>)\<rparr> ''drop_view'' ''t''
        \<lparr>stdin = [[], ''  '', '' users ''], stdout = [],
         fsys = \<lparr>dirs = {}, files = Map.empty\<rparr>, files_read = []\<rparr> =
      (Inr (),
       \<lparr>stdin = [],
        stdout = [''Enter the view name: '',
                  ''View name cannot be empty. Please enter a valid view name.'' @ [CHR 0x0A],
                  ''Enter the view name: '',
                  ''View name cannot be empty. Please enter a valid view name.'' @ [CHR 0x0A],
                  ''Enter the view name: '',
                  ''Generated SQL Query:'' @ [CHR 0x0A] @ ''DROP VIEW IF EXISTS users;'' @ [CHR 0x0A]],
        fsys = \<lparr>dirs = {}, files = Map.empty\<rparr>, files_read = []\<rparr>)"
proof -
  let ?e = "\<lparr>realpath = (\<lambda>p. p), read_csv = (\<lambda>p f. Inr \<lparr>columns = [], rows = []\<rparr>),
         read_excel = (\<lambda>p f. Inr \<lparr>columns = [], rows = []\<rparr>)\<rparr>"
  let ?w = "\<lparr>stdin = [], stdout = [], fsys = \<lparr>dirs = {}, files = Map.empty\<rparr>, files_read = []\<rparr>"
  have h0: "list_all (\<lambda>l. strip l = []) [[], ''  '']"
    by code_simp
  have st: "strip '' users '' = ''users''"
    by code_simp
  then have h1: "strip '' users '' \<noteq> []"
    by simp
  have h2: "list_all (\<lambda>c. lower (fst c) \<noteq> ''done'') [(''id'', ''INT'', [], [])]"
    by code_simp
  have h3: "lower ''done'' = ''done''"
    by code_simp
  note th = free_form_fragments [OF h0 h1 h2 h3, where e = ?e and t = "''t''" and w = ?w and rest = "[]"]
  have a: "read_table_name
        \<lparr>stdin = [[], ''  '', '' users ''], stdout = [],
         fsys = \<lparr>dirs = {}, files = Map.empty\<rparr>, files_read = []\<rparr> =
      (Inr ''users'',
       \<lparr>stdin = [],
        stdout = [''Enter the table name: '',
                  ''Table name cannot be empty. Please enter a valid table name.'' @ [CHR 0x0A],
                  ''Enter the table name: '',
                  ''Table name cannot be empty. Please enter a valid table name.'' @ [CHR 0x0A],
                  ''Enter the table name: ''],
        fsys = \<lparr>dirs = {}, files = Map.empty\<rparr>, files_read = []\<rparr>)"
    using th [THEN conjunct1] unfolding st by simp
  have b: "run_operation ?e ''drop_view'' ''t''
        \<lparr>stdin = [[], ''  '', '' users ''], stdout = [],
         fsys = \<lparr>dirs = {}, files = Map.empty\<rparr>, files_read = []\<rparr> =
      (Inr (),
       \<lparr>stdin = [],
        stdout = [''Enter the view name: '',
                  ''View name cannot be empty. Please enter a valid view name.'' @ [CHR 0x0A],
                  ''Enter the view name: '',
                  ''View name cannot be empty. Please enter a valid view name.'' @ [CHR 0x0A],
                  ''Enter the view name: '',
                  ''Generated SQL Query:'' @ [CHR 0x0A] @ ''DROP VIEW IF EXISTS users;'' @ [CHR 0x0A]],
        fsys = \<lparr>dirs = {}, files = Map.empty\<rparr>, files_read = []\<rparr>)"
    using th [THEN conjunct2, THEN conjunct2, THEN conjunct2, THEN conjunct2,
          THEN conjunct2, THEN conjunct2, THEN conjunct2]
    unfolding st by simp
  show ?thesis
    by (intro conjI h0 h1 h2 h3 a b)
qed

end
